theory Spec2Isabelle
  imports Complex_Main "HOL-Library.AList"
begin

section \<open>Numbers and strings of the source language\<close>

text \<open>
  The bot is a Python program. Its \<open>int\<close> values are \<open>int\<close>, its \<open>str\<close> values are
  \<open>string\<close> (ASCII text; a character is one byte). Its \<open>float\<close> values are IEEE 754
  doubles, the type \<open>pyfloat\<close> below, in the functions whose result depends on the
  rounding or on an overflow (the temperature conversion, the dewpoint, the air
  density, the cloud base height). The heat index and the compass direction are given
  on real numbers.
\<close>

datatype py_error = ZeroDivisionError | ValueError | OverflowError

text \<open>
  \<open>round(x)\<close> and \<open>round(x, n)\<close>: Python rounds to the nearest value and, on a tie,
  to the even neighbour.
\<close>

definition round_half_even :: "real \<Rightarrow> int" where
  "round_half_even x =
     (let f = \<lfloor>x\<rfloor>; d = x - of_int f
      in if d < 1 / 2 then f
         else if 1 / 2 < d then f + 1
         else if even f then f else f + 1)"

definition py_round :: "real \<Rightarrow> nat \<Rightarrow> real" where
  "py_round x ndigits = of_int (round_half_even (x * 10 ^ ndigits)) / 10 ^ ndigits"

subsection \<open>Doubles\<close>

text \<open>
  A \<open>float\<close> is a finite double, an infinity or a NaN. \<open>Finite x\<close> carries the value
  of the double as a real number; the sign of a zero is not kept (no function below
  tells the two zeros apart: a division by either raises). \<open>nearest x\<close> is the real
  \<open>x\<close> rounded to the nearest number with 53 significant bits, or to the nearest
  multiple of \<open>2 powi - 1074\<close> for a subnormal magnitude, ties to the even neighbour;
  \<open>fl x\<close> is the double that stores an exact result \<open>x\<close>: an infinity when the
  rounded magnitude is beyond the largest double.
\<close>

datatype pyfloat = Finite real | PosInf | NegInf | NaN

definition FLOAT_MAX :: real where
  "FLOAT_MAX = (2 ^ 53 - 1) * 2 ^ 971"

definition nearest :: "real \<Rightarrow> real" where
  "nearest x =
     (if x = 0 then 0
      else (let e = max (\<lfloor>log 2 \<bar>x\<bar>\<rfloor> - 52) (- 1074)
            in of_int (round_half_even (x / 2 powi e)) * 2 powi e))"

definition fl :: "real \<Rightarrow> pyfloat" where
  "fl x =
     (let y = nearest x
      in if FLOAT_MAX < \<bar>y\<bar> then (if 0 < x then PosInf else NegInf) else Finite y)"

text \<open>
  Addition, subtraction, multiplication and division of doubles: the exact result,
  stored by \<open>fl\<close>, and the IEEE rules for the infinities and NaN. None of them raises,
  an overflow gives an infinity. \<open>fquot\<close> is the division by a divisor that is not
  zero.
\<close>

definition positive :: "pyfloat \<Rightarrow> bool" where
  "positive a = (case a of Finite x \<Rightarrow> 0 < x | PosInf \<Rightarrow> True | _ \<Rightarrow> False)"

definition fneg :: "pyfloat \<Rightarrow> pyfloat" where
  "fneg a = (case a of Finite x \<Rightarrow> Finite (- x) | PosInf \<Rightarrow> NegInf | NegInf \<Rightarrow> PosInf | NaN \<Rightarrow> NaN)"

definition fadd :: "pyfloat \<Rightarrow> pyfloat \<Rightarrow> pyfloat" where
  "fadd a b =
     (case (a, b) of
        (Finite x, Finite y) \<Rightarrow> fl (x + y)
      | _ \<Rightarrow> if a = NaN \<or> b = NaN then NaN
             else if (a = PosInf \<and> b = NegInf) \<or> (a = NegInf \<and> b = PosInf) then NaN
             else if a = PosInf \<or> b = PosInf then PosInf
             else NegInf)"

definition fsub :: "pyfloat \<Rightarrow> pyfloat \<Rightarrow> pyfloat" where
  "fsub a b = fadd a (fneg b)"

definition fmul :: "pyfloat \<Rightarrow> pyfloat \<Rightarrow> pyfloat" where
  "fmul a b =
     (case (a, b) of
        (Finite x, Finite y) \<Rightarrow> fl (x * y)
      | _ \<Rightarrow> if a = NaN \<or> b = NaN then NaN
             else if a = Finite 0 \<or> b = Finite 0 then NaN
             else if positive a = positive b then PosInf
             else NegInf)"

definition fquot :: "pyfloat \<Rightarrow> pyfloat \<Rightarrow> pyfloat" where
  "fquot a b =
     (case (a, b) of
        (Finite x, Finite y) \<Rightarrow>
          if y = 0 then (if x = 0 then NaN else if 0 < x then PosInf else NegInf)
          else fl (x / y)
      | (Finite x, _) \<Rightarrow> if b = NaN then NaN else Finite 0
      | (_, Finite y) \<Rightarrow> if a = NaN then NaN
                          else if positive a = (0 < y) then PosInf else NegInf
      | _ \<Rightarrow> NaN)"

text \<open>
  The operations that raise. A \<open>float\<close> division by zero raises \<open>ZeroDivisionError\<close>.
  \<open>math.log\<close> raises \<open>ValueError\<close> for a number that is not positive, \<open>math.exp\<close>
  raises \<open>OverflowError\<close> instead of returning an infinity for a finite argument; both
  are taken as correctly rounded.
\<close>

definition fdiv :: "pyfloat \<Rightarrow> pyfloat \<Rightarrow> py_error + pyfloat" where
  "fdiv a b = (if b = Finite 0 then Inl ZeroDivisionError else Inr (fquot a b))"

definition math_log :: "pyfloat \<Rightarrow> py_error + pyfloat" where
  "math_log a =
     (case a of
        Finite x \<Rightarrow> if x \<le> 0 then Inl ValueError else Inr (fl (ln x))
      | PosInf \<Rightarrow> Inr PosInf
      | NegInf \<Rightarrow> Inl ValueError
      | NaN \<Rightarrow> Inr NaN)"

definition math_exp :: "pyfloat \<Rightarrow> py_error + pyfloat" where
  "math_exp a =
     (case a of
        Finite x \<Rightarrow> if fl (exp x) = PosInf then Inl OverflowError else Inr (fl (exp x))
      | PosInf \<Rightarrow> Inr PosInf
      | NegInf \<Rightarrow> Inr (Finite 0)
      | NaN \<Rightarrow> Inr NaN)"

text \<open>
  \<open>round(x, n)\<close> of a float is the double nearest to the decimal rounding of the
  stored value, and an infinity or a NaN as it is. \<open>int(x)\<close> truncates towards zero;
  it raises \<open>OverflowError\<close> for an infinity and \<open>ValueError\<close> for a NaN.
\<close>

definition round_float :: "pyfloat \<Rightarrow> nat \<Rightarrow> pyfloat" where
  "round_float a ndigits = (case a of Finite x \<Rightarrow> fl (py_round x ndigits) | _ \<Rightarrow> a)"

definition int_of_float :: "pyfloat \<Rightarrow> py_error + int" where
  "int_of_float a =
     (case a of
        Finite x \<Rightarrow> Inr (if 0 \<le> x then \<lfloor>x\<rfloor> else \<lceil>x\<rceil>)
      | NaN \<Rightarrow> Inl ValueError
      | _ \<Rightarrow> Inl OverflowError)"

subsection \<open>Scientific constants\<close>

text \<open>A decimal literal of the source is the double nearest to it.\<close>

definition VAPOR_PRESSURE_BASE :: pyfloat where "VAPOR_PRESSURE_BASE = fl 6.112"
definition VAPOR_PRESSURE_COEFF :: pyfloat where "VAPOR_PRESSURE_COEFF = fl 17.67"
definition VAPOR_PRESSURE_TEMP_BASE :: pyfloat where "VAPOR_PRESSURE_TEMP_BASE = fl 243.5"
definition GAS_CONSTANT_DRY_AIR :: pyfloat where "GAS_CONSTANT_DRY_AIR = fl 287.05"
definition KELVIN_OFFSET :: pyfloat where "KELVIN_OFFSET = fl 273.15"

section \<open>Unit conversion and classification\<close>

text \<open>The unit symbols \<open>\<degree>F\<close> and \<open>\<degree>C\<close>; the degree sign is two bytes in UTF-8.\<close>

definition deg_F :: string where "deg_F = [CHR 0xC2, CHR 0xB0, CHR ''F'']"
definition deg_C :: string where "deg_C = [CHR 0xC2, CHR 0xB0, CHR ''C'']"

text \<open>
  \<open>convert_temperature\<close> compares the unit with two strings and treats everything
  else as celsius; it has no failing branch.
\<close>

definition convert_temperature :: "pyfloat \<Rightarrow> string \<Rightarrow> pyfloat \<times> string" where
  "convert_temperature temp_c unit =
     (if unit = ''fahrenheit''
      then (round_float (fadd (fquot (fmul temp_c (Finite 9)) (Finite 5)) (Finite 32)) 1, deg_F)
      else if unit = ''kelvin'' then (round_float (fadd temp_c KELVIN_OFFSET) 1, ''K'')
      else (round_float temp_c 1, deg_C))"

definition directions :: "string list" where
  "directions = [''N'', ''NNE'', ''NE'', ''ENE'', ''E'', ''ESE'', ''SE'', ''SSE'',
                 ''S'', ''SSW'', ''SW'', ''WSW'', ''W'', ''WNW'', ''NW'', ''NNW'']"

text \<open>
  \<open>cardinal_direction\<close>: Python's \<open>%\<close> with a positive modulus is never negative, as
  \<open>mod\<close> on \<open>int\<close>, so the index is always inside the table.
\<close>

definition cardinal_direction :: "real \<Rightarrow> string" where
  "cardinal_direction degrees =
     (let idx = round_half_even (degrees / 22.5) mod 16 in directions ! nat idx)"

section \<open>Meteorological derivation engine\<close>

text \<open>
  Each derivation function is a \<open>try\<close> block with a handler for every exception. The
  block is the \<open>_try\<close> function, whose \<open>Inl\<close> results are the exceptions raised; the
  function itself returns the handler's constant for them.
\<close>

definition calculate_dewpoint_try :: "pyfloat \<Rightarrow> pyfloat \<Rightarrow> py_error + pyfloat" where
  "calculate_dewpoint_try temp_c humidity =
     (let a = VAPOR_PRESSURE_COEFF; b = VAPOR_PRESSURE_TEMP_BASE
      in case fdiv (fmul a temp_c) (fadd b temp_c) of
           Inl e \<Rightarrow> Inl e
         | Inr q \<Rightarrow>
             (case math_log (fquot humidity (Finite 100)) of
                Inl e \<Rightarrow> Inl e
              | Inr l \<Rightarrow>
                  (let alpha = fadd q l
                   in case fdiv (fmul b alpha) (fsub a alpha) of
                        Inl e \<Rightarrow> Inl e
                      | Inr dewpoint \<Rightarrow> Inr (round_float dewpoint 2))))"

definition calculate_dewpoint :: "pyfloat \<Rightarrow> pyfloat \<Rightarrow> pyfloat" where
  "calculate_dewpoint temp_c humidity =
     (case calculate_dewpoint_try temp_c humidity of Inr v \<Rightarrow> v | Inl e \<Rightarrow> Finite 0)"

text \<open>
  The heat index uses addition, subtraction, multiplication and \<open>round\<close> with a digit
  count only; none of them raises on a float, so its handler (which would return
  \<open>temp_c\<close>) is never entered. It is given on real numbers.
\<close>

definition calculate_heat_index :: "real \<Rightarrow> real \<Rightarrow> real" where
  "calculate_heat_index temp_c humidity =
     (let temp_f = (temp_c * 9 / 5) + 32
      in if temp_f < 80 then temp_c
         else
           (let hi = - 42.379 + 2.04901523 * temp_f + 10.14333127 * humidity;
                hi = hi - 0.22475541 * temp_f * humidity;
                hi = hi - 0.00683783 * temp_f * temp_f;
                hi = hi - 0.05481717 * humidity * humidity;
                hi = hi + 0.00122874 * temp_f * temp_f * humidity;
                hi = hi + 0.00085282 * temp_f * humidity * humidity;
                hi = hi - 0.00000199 * temp_f * temp_f * humidity * humidity;
                hi_c = (hi - 32) * 5 / 9
            in py_round hi_c 2))"

definition calculate_air_density_try :: "pyfloat \<Rightarrow> pyfloat \<Rightarrow> pyfloat \<Rightarrow> py_error + pyfloat" where
  "calculate_air_density_try temp_c pressure_hpa humidity =
     (let temp_k = fadd temp_c KELVIN_OFFSET
      in case fdiv (fmul VAPOR_PRESSURE_COEFF temp_c) (fadd temp_c VAPOR_PRESSURE_TEMP_BASE) of
           Inl e \<Rightarrow> Inl e
         | Inr x \<Rightarrow>
             (case math_exp x of
                Inl e \<Rightarrow> Inl e
              | Inr ex \<Rightarrow>
                  (let es = fmul VAPOR_PRESSURE_BASE ex;
                       e = fmul (fquot humidity (Finite 100)) es;
                       pd = fsub (fmul pressure_hpa (Finite 100)) (fmul e (Finite 100))
                   in case fdiv pd (fmul GAS_CONSTANT_DRY_AIR temp_k) of
                        Inl e \<Rightarrow> Inl e
                      | Inr density \<Rightarrow> Inr (round_float density 4))))"

definition calculate_air_density :: "pyfloat \<Rightarrow> pyfloat \<Rightarrow> pyfloat \<Rightarrow> pyfloat" where
  "calculate_air_density temp_c pressure_hpa humidity =
     (case calculate_air_density_try temp_c pressure_hpa humidity of
        Inr v \<Rightarrow> v | Inl e \<Rightarrow> fl 1.225)"

definition calculate_cloud_base_height_try :: "pyfloat \<Rightarrow> pyfloat \<Rightarrow> py_error + int" where
  "calculate_cloud_base_height_try temp_c dewpoint =
     (let spread = fsub temp_c dewpoint; height = fmul (Finite 125) spread
      in int_of_float height)"

definition calculate_cloud_base_height :: "pyfloat \<Rightarrow> pyfloat \<Rightarrow> int" where
  "calculate_cloud_base_height temp_c dewpoint =
     (case calculate_cloud_base_height_try temp_c dewpoint of Inr v \<Rightarrow> v | Inl e \<Rightarrow> 0)"

text \<open>
  The Rothfusz regression as one polynomial in the Fahrenheit temperature and the
  relative humidity, to compare with the seven assignments of \<open>calculate_heat_index\<close>.
\<close>

definition rothfusz :: "real \<Rightarrow> real \<Rightarrow> real" where
  "rothfusz t h =
     - 42.379 + 2.04901523 * t + 10.14333127 * h - 0.22475541 * t * h
     - 0.00683783 * t\<^sup>2 - 0.05481717 * h\<^sup>2 + 0.00122874 * t\<^sup>2 * h
     + 0.00085282 * t * h\<^sup>2 - 0.00000199 * t\<^sup>2 * h\<^sup>2"

section \<open>Strings and integers\<close>

text \<open>
  \<open>str.lower\<close> and \<open>str.strip\<close> on ASCII text. The white space that \<open>strip\<close> removes
  is tab, line feed, vertical tab, form feed, carriage return, the four separators
  \<open>0x1C\<close> to \<open>0x1F\<close> and the space.
\<close>

definition lower_char :: "char \<Rightarrow> char" where
  "lower_char c =
     (let n = (of_char c :: nat) in if 65 \<le> n \<and> n \<le> 90 then char_of (n + 32) else c)"

definition lower :: "string \<Rightarrow> string" where
  "lower s = map lower_char s"

definition is_space :: "char \<Rightarrow> bool" where
  "is_space c =
     (let n = (of_char c :: nat) in (9 \<le> n \<and> n \<le> 13) \<or> (28 \<le> n \<and> n \<le> 32))"

definition strip :: "string \<Rightarrow> string" where
  "strip s = rev (dropWhile is_space (rev (dropWhile is_space s)))"

text \<open>\<open>str(k)\<close> of an integer: its decimal digits, after a minus sign when negative.\<close>

definition digit_char :: "nat \<Rightarrow> char" where
  "digit_char d = char_of (48 + d)"

fun str_nat :: "nat \<Rightarrow> string" where
  "str_nat n = (if n < 10 then [digit_char n] else str_nat (n div 10) @ [digit_char (n mod 10)])"

definition str_int :: "int \<Rightarrow> string" where
  "str_int k = (if k < 0 then CHR ''-'' # str_nat (nat (- k)) else str_nat (nat k))"

text \<open>
  \<open>int(s)\<close> of a string, \<open>None\<close> for \<open>ValueError\<close>: white space around the number is
  dropped, one sign may come first, and the digits may be separated by single
  underscores. \<open>digits_value\<close> reads the digits; its flag says that the character
  before was a digit.
\<close>

definition is_digit :: "char \<Rightarrow> bool" where
  "is_digit c = (let n = (of_char c :: nat) in 48 \<le> n \<and> n \<le> 57)"

definition digit_value :: "char \<Rightarrow> int" where
  "digit_value c = int (of_char c) - 48"

fun digits_value :: "int \<Rightarrow> bool \<Rightarrow> string \<Rightarrow> int option" where
  "digits_value acc after_digit [] = (if after_digit then Some acc else None)"
| "digits_value acc after_digit (c # cs) =
     (if is_digit c then digits_value (acc * 10 + digit_value c) True cs
      else if c = CHR ''_'' \<and> after_digit then digits_value acc False cs
      else None)"

definition int_of_str :: "string \<Rightarrow> int option" where
  "int_of_str s =
     (case strip s of
        [] \<Rightarrow> None
      | c # cs \<Rightarrow>
          if c = CHR ''-'' then map_option uminus (digits_value 0 False cs)
          else if c = CHR ''+'' then digits_value 0 False cs
          else digits_value 0 False (c # cs))"

section \<open>Data model\<close>

text \<open>
  The record that \<open>get_weather\<close> builds from the provider's answer. The keys \<open>lat\<close>,
  \<open>lon\<close> and \<open>country\<close> are also keys of a settings record, so here they carry the
  prefix \<open>w_\<close>.
\<close>

record observation =
  temp :: real
  feels_like :: real
  pressure :: real
  humidity :: real
  clouds :: real
  wind_speed :: real
  wind_deg :: real
  visibility :: int
  description :: string
  condition_id :: int
  w_lat :: real
  w_lon :: real
  city_name :: string
  w_country :: string

text \<open>One entry of \<open>user_settings\<close>, with the seven keys that \<open>setlocation\<close> writes.\<close>

record station_settings =
  city :: string
  country :: string
  lat :: real
  lon :: real
  tz :: string
  temp_unit :: string
  report_hour :: int

text \<open>
  A Python \<open>dict\<close> keeps its keys in insertion order and holds each key once: it is
  an association list with distinct keys. Assigning to a key (\<open>AList.update\<close>)
  replaces the value in place or appends a new pair. \<open>dict_of_pairs\<close> is a dict
  comprehension: the pairs are assigned one after the other.
\<close>

definition dict_of_pairs :: "('k \<times> 'v) list \<Rightarrow> ('k \<times> 'v) list" where
  "dict_of_pairs ps = foldl (\<lambda>d (k, v). AList.update k v d) [] ps"

text \<open>
  The settings file: absent, not readable as JSON, or a JSON object, whose keys are
  strings. The \<open>json\<close> library writes and reads the values (strings and numbers) as
  they are; the file operations themselves are taken to succeed.
\<close>

datatype db_file = NoFile | Unreadable | JsonObject "(string \<times> station_settings) list"

type_synonym nasa_image = "string \<times> string \<times> string"

text \<open>
  The global variables of the bot and the file on disk. Time stamps of the caches are
  clock readings in microseconds, the resolution of \<open>datetime\<close>.
\<close>

record bot_state =
  user_settings :: "(int \<times> station_settings) list"
  weather_cache :: "string \<rightharpoonup> observation \<times> int"
  nasa_cache :: "(nasa_image \<times> int) option"
  db :: db_file

section \<open>Database functions\<close>

text \<open>
  \<open>convert_keys\<close> is the comprehension \<open>{int(k): v for k, v in data.items()}\<close> up to
  the assignments: one key that \<open>int\<close> rejects raises and leaves no result.
\<close>

fun convert_keys :: "(string \<times> 'v) list \<Rightarrow> (int \<times> 'v) list option" where
  "convert_keys [] = Some []"
| "convert_keys ((k, v) # kvs) =
     (case int_of_str k of
        None \<Rightarrow> None
      | Some i \<Rightarrow> (case convert_keys kvs of None \<Rightarrow> None | Some ps \<Rightarrow> Some ((i, v) # ps)))"

definition load_user_settings :: "bot_state \<Rightarrow> bot_state" where
  "load_user_settings st =
     (case db st of
        JsonObject data \<Rightarrow>
          (case convert_keys data of
             Some ps \<Rightarrow> st\<lparr>user_settings := dict_of_pairs ps\<rparr>
           | None \<Rightarrow> st\<lparr>user_settings := []\<rparr>)
      | Unreadable \<Rightarrow> st\<lparr>user_settings := []\<rparr>
      | NoFile \<Rightarrow> st\<lparr>user_settings := []\<rparr>)"

definition save_user_settings :: "bot_state \<Rightarrow> bot_state" where
  "save_user_settings st =
     (let data = dict_of_pairs (map (\<lambda>(k, v). (str_int k, v)) (user_settings st))
      in st\<lparr>db := JsonObject data\<rparr>)"

section \<open>The world outside the bot\<close>

text \<open>
  What a command or a sweep meets outside the process, fixed for its duration:
  \<^item> \<open>clock\<close>, the reading of \<open>datetime.now()\<close> in microseconds, and \<open>utc\<close>, the
    instant in seconds since the epoch, from which \<open>datetime.now(tz)\<close> is derived;
  \<^item> \<open>weather_api\<close> and \<open>nasa_api\<close>, the request to the provider together with the
    construction of the result; \<open>None\<close> is any exception raised on the way (time-out,
    error status, missing key);
  \<^item> \<open>timezone_at\<close>, the answer of \<open>TimezoneFinder\<close>, \<open>None\<close> when it answers
    \<open>None\<close> or raises;
  \<^item> \<open>pytz_timezone\<close>, the zone database: \<open>None\<close> for an unknown name
    (\<open>UnknownTimeZoneError\<close>), otherwise the offset from UTC in seconds that the zone
    has at a given instant;
  \<^item> \<open>fetch_user\<close>, whether the platform finds the user, and \<open>dm\<close>, what happens to
    the \<open>n\<close>-th direct message sent to a user.
\<close>

datatype send_result = Sent | Forbidden | SendError

record world =
  clock :: int
  utc :: int
  weather_api :: "string \<Rightarrow> observation option"
  nasa_api :: "nasa_image option"
  timezone_at :: "real \<Rightarrow> real \<Rightarrow> string option"
  pytz_timezone :: "string \<Rightarrow> (int \<Rightarrow> int) option"
  fetch_user :: "int \<Rightarrow> bool"
  dm :: "int \<Rightarrow> nat \<Rightarrow> send_result"

section \<open>API functions with caching\<close>

definition WEATHER_CACHE_TTL :: int where
  "WEATHER_CACHE_TTL = 5 * 60 * 1000000"

definition NASA_CACHE_TTL :: int where
  "NASA_CACHE_TTL = 12 * 3600 * 1000000"

text \<open>
  Both functions return their result (\<open>None\<close> for failure), the new state, and the
  requests they made to the provider: for the weather the place names asked for, for
  the image their number.
\<close>

definition get_weather :: "world \<Rightarrow> string \<Rightarrow> bot_state \<Rightarrow> observation option \<times> bot_state \<times> string list" where
  "get_weather w place st =
     (let cache_key = lower place; now = clock w;
          hit = (case weather_cache st cache_key of
                   Some (cached_data, timestamp) \<Rightarrow>
                     if now - timestamp < WEATHER_CACHE_TTL then Some cached_data else None
                 | None \<Rightarrow> None)
      in case hit of
           Some cached_data \<Rightarrow> (Some cached_data, st, [])
         | None \<Rightarrow>
             (case weather_api w place of
                Some result \<Rightarrow>
                  (Some result,
                   st\<lparr>weather_cache := (weather_cache st)(cache_key \<mapsto> (result, now))\<rparr>,
                   [place])
              | None \<Rightarrow> (None, st, [place])))"

definition get_nasa_image :: "world \<Rightarrow> bot_state \<Rightarrow> nasa_image option \<times> bot_state \<times> nat" where
  "get_nasa_image w st =
     (let now = clock w;
          hit = (case nasa_cache st of
                   Some (cached_data, timestamp) \<Rightarrow>
                     if now - timestamp < NASA_CACHE_TTL then Some cached_data else None
                 | None \<Rightarrow> None)
      in case hit of
           Some cached_data \<Rightarrow> (Some cached_data, st, 0)
         | None \<Rightarrow>
             (case nasa_api w of
                Some result \<Rightarrow> (Some result, st\<lparr>nasa_cache := Some (result, now)\<rparr>, 1)
              | None \<Rightarrow> (None, st, 1)))"

definition get_timezone_from_coords :: "world \<Rightarrow> real \<Rightarrow> real \<Rightarrow> string" where
  "get_timezone_from_coords w la lo =
     (case timezone_at w la lo of
        Some tz_str \<Rightarrow> if tz_str \<noteq> [] then tz_str else ''UTC''
      | None \<Rightarrow> ''UTC'')"

text \<open>
  The validity of a cache entry in the words of the data model: an entry is valid iff
  its age is below the time to live of its kind.
\<close>

definition entry_valid :: "int \<Rightarrow> int \<Rightarrow> ('v \<times> int) option \<Rightarrow> bool" where
  "entry_valid ttl now entry =
     (case entry of Some (v, timestamp) \<Rightarrow> now - timestamp < ttl | None \<Rightarrow> False)"

section \<open>Slash commands\<close>

text \<open>
  What a command answers. The texts and embeds are left out; a constructor stands for
  each message of the source.
\<close>

datatype change = TemperatureUnit string | DailyReportTime int

datatype response =
    InvalidCity
  | UnableToResolve
  | StationConfigured
  | NeedLocation
  | HourOutOfRange
  | CurrentSettings string int
  | SettingsUpdated "change list"

definition setlocation :: "world \<Rightarrow> int \<Rightarrow> string \<Rightarrow> bot_state \<Rightarrow> response \<times> bot_state" where
  "setlocation w user_id place st =
     (let place = strip place
      in if length place = 0 \<or> length place > 100 then (InvalidCity, st)
         else
           (case get_weather w place st of
              (None, st, requests) \<Rightarrow> (UnableToResolve, st)
            | (Some result, st, requests) \<Rightarrow>
                (let la = w_lat result; lo = w_lon result;
                     tz_str = get_timezone_from_coords w la lo;
                     entry = \<lparr>city = city_name result, country = w_country result,
                              lat = la, lon = lo, tz = tz_str,
                              temp_unit = ''celsius'', report_hour = 8\<rparr>;
                     st = st\<lparr>user_settings := AList.update user_id entry (user_settings st)\<rparr>;
                     st = save_user_settings st
                 in (StationConfigured, st))))"

text \<open>
  \<open>settings\<close>: the choice of a unit is a pair of its name and its value. The local
  variable \<open>settings\<close> of the source is the dict stored in \<open>user_settings\<close> itself, so
  an assignment to one of its keys (\<open>assign\<close>) changes \<open>user_settings\<close>.
  \<open>settings_reply\<close> is the last \<open>if\<close> of the command, which shows the settings when
  nothing was changed and saves otherwise.
\<close>

definition assign :: "int \<Rightarrow> (station_settings \<Rightarrow> station_settings) \<Rightarrow> bot_state \<Rightarrow> bot_state" where
  "assign user_id f st = st\<lparr>user_settings := AList.map_entry user_id f (user_settings st)\<rparr>"

definition capitalize :: "string \<Rightarrow> string" where
  "capitalize s =
     (case s of
        [] \<Rightarrow> []
      | c # cs \<Rightarrow>
          (let n = (of_char c :: nat)
           in (if 97 \<le> n \<and> n \<le> 122 then char_of (n - 32) else c) # lower cs))"

definition settings_reply :: "int \<Rightarrow> change list \<Rightarrow> bot_state \<Rightarrow> response \<times> bot_state" where
  "settings_reply user_id changes st =
     (if changes = []
      then (case map_of (user_settings st) user_id of
              Some entry \<Rightarrow> (CurrentSettings (capitalize (temp_unit entry)) (report_hour entry), st)
            | None \<Rightarrow> (NeedLocation, st))
      else (SettingsUpdated changes, save_user_settings st))"

definition settings :: "int \<Rightarrow> (string \<times> string) option \<Rightarrow> int option \<Rightarrow> bot_state \<Rightarrow> response \<times> bot_state" where
  "settings user_id temperature_unit hour st =
     (if map_of (user_settings st) user_id = None then (NeedLocation, st)
      else
        (let (st, changes) =
               (case temperature_unit of
                  Some (name, val) \<Rightarrow>
                    (assign user_id (\<lambda>entry. entry\<lparr>temp_unit := val\<rparr>) st, [TemperatureUnit name])
                | None \<Rightarrow> (st, []))
         in case hour of
              Some h \<Rightarrow>
                if \<not> (0 \<le> h \<and> h \<le> 23) then (HourOutOfRange, st)
                else settings_reply user_id (changes @ [DailyReportTime h])
                       (assign user_id (\<lambda>entry. entry\<lparr>report_hour := h\<rparr>) st)
            | None \<Rightarrow> settings_reply user_id changes st))"

section \<open>Scheduled daily reports\<close>

text \<open>
  \<open>send_daily_report\<close> runs inside one \<open>try\<close> block whose handlers catch every
  exception. It returns how it ended, the messages that reached the user, and the new
  state. Between the weather and the first message it only evaluates the derivation
  and conversion functions above on the observation, which raise nothing.
\<close>

datatype delivery = ReportMessage | ImageMessage

datatype ending = Completed | WeatherUnavailable | ForbiddenError | OtherError

definition send_daily_report :: "world \<Rightarrow> int \<Rightarrow> station_settings \<Rightarrow> bot_state \<Rightarrow> ending \<times> delivery list \<times> bot_state" where
  "send_daily_report w user_id entry st =
     (if \<not> fetch_user w user_id then (OtherError, [], st)
      else
        (case get_weather w (city entry) st of
           (None, st, requests) \<Rightarrow> (WeatherUnavailable, [], st)
         | (Some data, st, requests) \<Rightarrow>
             (case dm w user_id 0 of
                Forbidden \<Rightarrow> (ForbiddenError, [], st)
              | SendError \<Rightarrow> (OtherError, [], st)
              | Sent \<Rightarrow>
                  (case get_nasa_image w st of
                     (None, st, requests) \<Rightarrow> (Completed, [ReportMessage], st)
                   | (Some img, st, requests) \<Rightarrow>
                       (case dm w user_id 1 of
                          Forbidden \<Rightarrow> (ForbiddenError, [ReportMessage], st)
                        | SendError \<Rightarrow> (OtherError, [ReportMessage], st)
                        | Sent \<Rightarrow> (Completed, [ReportMessage, ImageMessage], st))))))"

text \<open>
  The hour, the minute and the calendar day of \<open>datetime.now(tz)\<close> at the instant
  \<open>t\<close>, for a zone given by its offset.
\<close>

definition local_hour :: "(int \<Rightarrow> int) \<Rightarrow> int \<Rightarrow> int" where
  "local_hour zone t = ((t + zone t) div 3600) mod 24"

definition local_minute :: "(int \<Rightarrow> int) \<Rightarrow> int \<Rightarrow> int" where
  "local_minute zone t = ((t + zone t) div 60) mod 60"

definition local_day :: "(int \<Rightarrow> int) \<Rightarrow> int \<Rightarrow> int" where
  "local_day zone t = (t + zone t) div 86400"

text \<open>
  One sweep. For every user it records what the loop body did: the zone lookup
  raised, the time did not match, or \<open>send_daily_report\<close> was called, with its ending.
  The handler of the loop body only logs, and the loop goes on with the next user.
\<close>

datatype sweep_event = TimezoneError | NotDue | Attempted ending "delivery list"

fun sweep_users :: "world \<Rightarrow> (int \<times> station_settings) list \<Rightarrow> bot_state \<Rightarrow> (int \<times> sweep_event) list \<times> bot_state" where
  "sweep_users w [] st = ([], st)"
| "sweep_users w ((user_id, entry) # rest) st =
     (case pytz_timezone w (tz entry) of
        None \<Rightarrow>
          (let (events, st) = sweep_users w rest st
           in ((user_id, TimezoneError) # events, st))
      | Some zone \<Rightarrow>
          if local_hour zone (utc w) = report_hour entry \<and> local_minute zone (utc w) < 5
          then (let (e, sent, st) = send_daily_report w user_id entry st;
                    (events, st) = sweep_users w rest st
                in ((user_id, Attempted e sent) # events, st))
          else (let (events, st) = sweep_users w rest st
                in ((user_id, NotDue) # events, st)))"

definition check_and_send_reports :: "world \<Rightarrow> bot_state \<Rightarrow> (int \<times> sweep_event) list \<times> bot_state" where
  "check_and_send_reports w st = sweep_users w (user_settings st) st"

text \<open>The users for whom a sweep called \<open>send_daily_report\<close>.\<close>

definition is_attempt :: "sweep_event \<Rightarrow> bool" where
  "is_attempt e = (case e of Attempted x sent \<Rightarrow> True | _ \<Rightarrow> False)"

definition attempted :: "world \<Rightarrow> bot_state \<Rightarrow> int list" where
  "attempted w st = map fst (filter (\<lambda>(user_id, e). is_attempt e) (fst (check_and_send_reports w st)))"

text \<open>
  The condition of the sweep for one user, in the words of the specification: the
  zone is known, the local hour is the report hour and the local minute is below 5.
\<close>

definition report_due :: "world \<Rightarrow> station_settings \<Rightarrow> bool" where
  "report_due w entry =
     (case pytz_timezone w (tz entry) of
        None \<Rightarrow> False
      | Some zone \<Rightarrow>
          local_hour zone (utc w) = report_hour entry \<and> local_minute zone (utc w) < 5)"

text \<open>
  What the record of a user and the world allow the sweep to note for that user: a zone
  error when the zone is unknown, nothing to do when the zone is known and the report
  is not due, a call of \<open>send_daily_report\<close> when it is due.
\<close>

definition event_fits :: "world \<Rightarrow> station_settings \<Rightarrow> sweep_event \<Rightarrow> bool" where
  "event_fits w entry e =
     ((pytz_timezone w (tz entry) = None \<longrightarrow> e = TimezoneError)
      \<and> (pytz_timezone w (tz entry) \<noteq> None \<and> \<not> report_due w entry \<longrightarrow> e = NotDue)
      \<and> (report_due w entry \<longrightarrow> is_attempt e))"

text \<open>
  The users to whom a sweep delivered the report: \<open>send_daily_report\<close> was called and
  its first message, the report, reached the user.
\<close>

definition is_delivery :: "sweep_event \<Rightarrow> bool" where
  "is_delivery e = (case e of Attempted x sent \<Rightarrow> ReportMessage \<in> set sent | _ \<Rightarrow> False)"

definition delivered :: "world \<Rightarrow> bot_state \<Rightarrow> int list" where
  "delivered w st = map fst (filter (\<lambda>(user_id, e). is_delivery e) (fst (check_and_send_reports w st)))"

text \<open>
  The local calendar day \<open>d\<close> of a zone is an ordinary day at the offset \<open>off\<close>: the zone
  has this offset at every instant that it places on the day \<open>d\<close>, and at every instant
  of the 24 hours that are the day \<open>d\<close> at this offset.
\<close>

definition offset_on_day :: "(int \<Rightarrow> int) \<Rightarrow> int \<Rightarrow> int \<Rightarrow> bool" where
  "offset_on_day zone off d =
     (\<forall>t. local_day zone t = d \<or> (t + off) div 86400 = d \<longrightarrow> zone t = off)"

text \<open>
  The loop body reads the clock for each user in turn: in the sweep of the tick
  \<open>300 * k\<close> it reads it for a given user at \<open>300 * k + lag k\<close>. The readings are
  punctual when they are on the tick itself or, for an offset that is a multiple of
  five minutes, before the next tick.
\<close>

definition punctual :: "int \<Rightarrow> (int \<Rightarrow> int) \<Rightarrow> bool" where
  "punctual off lag =
     ((\<forall>k. lag k = 0) \<or> (off mod 300 = 0 \<and> (\<forall>k. 0 \<le> lag k \<and> lag k < 300)))"

section \<open>Example data\<close>

text \<open>A small world and a few users, on which the theorems below are evaluated.\<close>

definition paris :: observation where
  "paris = \<lparr>temp = 20, feels_like = 19, pressure = 1013, humidity = 50, clouds = 40,
             wind_speed = 3, wind_deg = 354, visibility = 10000,
             description = ''scattered clouds'', condition_id = 802,
             w_lat = 48.85, w_lon = 2.35, city_name = ''Paris'', w_country = ''FR''\<rparr>"

definition apod :: nasa_image where
  "apod = (''https://apod.nasa.gov/apod/image/m31.jpg'', ''M31'', ''The Andromeda galaxy'')"

text \<open>
  \<open>America/New_York\<close> between March 2026 and March 2027: daylight time (four hours
  behind UTC) until 1 November 2026, 06:00 UTC, standard time (five hours behind) from
  then on. \<open>Asia/Tokyo\<close> is nine hours ahead of UTC all year.
\<close>

definition new_york :: "int \<Rightarrow> int" where
  "new_york t = (if t < 1793512800 then - 14400 else - 18000)"

definition zones :: "string \<Rightarrow> (int \<Rightarrow> int) option" where
  "zones name =
     (if name = ''UTC'' then Some (\<lambda>t. 0)
      else if name = ''Asia/Tokyo'' then Some (\<lambda>t. 32400)
      else if name = ''America/New_York'' then Some new_york
      else None)"

definition world0 :: world where
  "world0 = \<lparr>clock = 0, utc = 0,
              weather_api = (\<lambda>place. if lower place = ''paris'' then Some paris else None),
              nasa_api = Some apod,
              timezone_at = (\<lambda>la lo. Some ''Asia/Tokyo''),
              pytz_timezone = zones,
              fetch_user = (\<lambda>user_id. True),
              dm = (\<lambda>user_id n. if user_id = 3 then Forbidden else Sent)\<rparr>"

definition state0 :: bot_state where
  "state0 = \<lparr>user_settings = [], weather_cache = Map.empty, nasa_cache = None, db = NoFile\<rparr>"

definition station :: "string \<Rightarrow> string \<Rightarrow> string \<Rightarrow> int \<Rightarrow> station_settings" where
  "station place zone_name unit_name h =
     \<lparr>city = place, country = ''FR'', lat = 48.85, lon = 2.35, tz = zone_name,
      temp_unit = unit_name, report_hour = h\<rparr>"

definition two_users :: bot_state where
  "two_users = state0\<lparr>user_settings :=
     [(123456789012345678, station ''Paris'' ''UTC'' ''celsius'' 8),
      (42, station ''Tokyo'' ''Asia/Tokyo'' ''kelvin'' 21)]\<rparr>"

text \<open>
  A state with one registered user, number 7, as \<open>setlocation\<close> leaves it: the record
  is in memory and in the file. In \<open>customised\<close> the user has then chosen Fahrenheit
  and the hour 21.
\<close>

definition registered :: bot_state where
  "registered =
     save_user_settings (state0\<lparr>user_settings := [(7, station ''Paris'' ''UTC'' ''celsius'' 8)]\<rparr>)"

definition customised :: bot_state where
  "customised =
     save_user_settings (state0\<lparr>user_settings := [(7, station ''Paris'' ''UTC'' ''fahrenheit'' 21)]\<rparr>)"

text \<open>The state after the weather of Paris and the image were fetched at clock 0.\<close>

definition paris_cached :: bot_state where
  "paris_cached = state0\<lparr>weather_cache := [''paris'' \<mapsto> (paris, 0)],
                          nasa_cache := Some (apod, 0)\<rparr>"

text \<open>
  Five users for one sweep: the zone of user 1 is unknown, the place of user 2 is
  unknown to the weather provider, user 3 refuses direct messages (see \<open>world0\<close>),
  user 4 is served, and for user 5 in Tokyo it is not the hour.
\<close>

definition five_users :: bot_state where
  "five_users = state0\<lparr>user_settings :=
     [(1, station ''Paris'' ''Mars/Olympus'' ''celsius'' 8),
      (2, station ''Atlantis'' ''UTC'' ''celsius'' 8),
      (3, station ''Paris'' ''UTC'' ''celsius'' 8),
      (4, station ''Paris'' ''UTC'' ''kelvin'' 8),
      (5, station ''Paris'' ''Asia/Tokyo'' ''celsius'' 8)]\<rparr>"

text \<open>The world at eight o'clock UTC on the first day of the epoch.\<close>

definition morning :: world where
  "morning = world0\<lparr>utc := 28800\<rparr>"

text \<open>A user in New York who asked for the report at one o'clock.\<close>

definition new_yorker :: bot_state where
  "new_yorker = state0\<lparr>user_settings := [(9, station ''Paris'' ''America/New_York'' ''celsius'' 1)]\<rparr>"

text \<open>A user in Tokyo who asked for the report at eight o'clock.\<close>

definition commuter :: bot_state where
  "commuter = state0\<lparr>user_settings := [(5, station ''Paris'' ''Asia/Tokyo'' ''celsius'' 8)]\<rparr>"

section \<open>Rounding\<close>

lemma round_half_even_close: "\<bar>of_int (round_half_even x) - x\<bar> \<le> 1 / 2"
proof -
  have "of_int \<lfloor>x\<rfloor> \<le> x" "x < of_int \<lfloor>x\<rfloor> + 1" by linarith+
  then show ?thesis
    unfolding round_half_even_def Let_def by (auto simp: abs_le_iff)
qed

lemma round_half_even_above:
  assumes "of_int k + 1 / 2 < x" and "x < of_int k + 1"
  shows "round_half_even x = k + 1"
proof -
  have "\<lfloor>x\<rfloor> = k" by (rule floor_unique) (use assms in linarith)+
  with assms show ?thesis by (simp add: round_half_even_def)
qed

lemma py_round_close: "\<bar>py_round x n - x\<bar> \<le> 1 / (2 * 10 ^ n)"
proof -
  let ?r = "of_int (round_half_even (x * 10 ^ n)) :: real"
  have "\<bar>?r - x * 10 ^ n\<bar> \<le> 1 / 2"
    by (rule round_half_even_close)
  then have "\<bar>?r - x * 10 ^ n\<bar> / 10 ^ n \<le> (1 / 2) / 10 ^ n"
    by (rule divide_right_mono) simp
  moreover have "py_round x n - x = (?r - x * 10 ^ n) / 10 ^ n"
    by (simp add: py_round_def diff_divide_distrib)
  then have "\<bar>py_round x n - x\<bar> = \<bar>?r - x * 10 ^ n\<bar> / 10 ^ n"
    by (simp only: abs_divide) simp
  ultimately show ?thesis by simp
qed

section \<open>Doubles\<close>

text \<open>
  The double that stores a real in the binade \<open>2 powi k\<close>: the real is rounded to a
  multiple of \<open>2 powi (k - 52)\<close>. It is used below to evaluate the functions on
  concrete doubles; \<open>1243415709619323 / 2 ^ 46\<close> is the double \<open>17.67\<close>.
\<close>

lemma round_half_even_ge: "of_int n \<le> x \<Longrightarrow> n \<le> round_half_even x"
proof -
  assume "of_int n \<le> x"
  then have "n \<le> \<lfloor>x\<rfloor>" by (simp add: le_floor_iff)
  then show ?thesis by (simp add: round_half_even_def Let_def)
qed

lemma round_half_even_le: "x \<le> of_int n \<Longrightarrow> round_half_even x \<le> n"
proof -
  assume a: "x \<le> of_int n"
  show ?thesis
  proof (cases "x = of_int \<lfloor>x\<rfloor>")
    case True
    with a have "\<lfloor>x\<rfloor> \<le> n" by linarith
    with True show ?thesis by (simp add: round_half_even_def Let_def)
  next
    case False
    have "of_int \<lfloor>x\<rfloor> \<le> x" by simp
    with False a have "of_int \<lfloor>x\<rfloor> < (of_int n :: real)" by linarith
    then have "\<lfloor>x\<rfloor> + 1 \<le> n" by simp
    then show ?thesis by (simp add: round_half_even_def Let_def)
  qed
qed

lemma floor_log2:
  assumes "2 powi k \<le> \<bar>x\<bar>" and "\<bar>x\<bar> < 2 powi (k + 1)"
  shows "\<lfloor>log 2 \<bar>x\<bar>\<rfloor> = k"
proof -
  have "(0::real) < 2 powi k" by simp
  with assms(1) have pos: "0 < \<bar>x\<bar>" by linarith
  have 1: "2 powr real_of_int k = (2::real) powi k"
    by (rule powr_real_of_int') simp_all
  have 2: "2 powr real_of_int (k + 1) = (2::real) powi (k + 1)"
    by (rule powr_real_of_int') simp_all
  have "2 powr real_of_int k \<le> \<bar>x\<bar> \<and> \<bar>x\<bar> < 2 powr real_of_int (k + 1)"
    using assms by (simp only: 1 2)
  then have "2 powr real_of_int k \<le> \<bar>x\<bar> \<and> \<bar>x\<bar> < 2 powr (real_of_int k + 1)"
    by simp
  with floor_log_eq_powr_iff[OF pos, of 2 k] show ?thesis by simp
qed

lemma nearest_at:
  assumes "2 powi k \<le> \<bar>x\<bar>" and "\<bar>x\<bar> < 2 powi (k + 1)" and "- 1022 \<le> k"
  shows "nearest x = of_int (round_half_even (x / 2 powi (k - 52))) * 2 powi (k - 52)"
proof -
  have "(0::real) < 2 powi k" by simp
  with assms(1) have "0 < \<bar>x\<bar>" by linarith
  then have "x \<noteq> 0" by simp
  moreover have "max (k - 52) (- 1074) = k - 52" using assms(3) by simp
  ultimately show ?thesis
    by (simp add: nearest_def floor_log2[OF assms(1,2)] Let_def)
qed

lemma nearest_bound:
  assumes "2 powi k \<le> \<bar>x\<bar>" and "\<bar>x\<bar> < 2 powi (k + 1)" and "- 1022 \<le> k"
  shows "\<bar>nearest x\<bar> \<le> 2 powi (k + 1)"
proof -
  define p :: real where "p = 2 powi (k - 52)"
  define z where "z = x / p"
  define r :: real where "r = of_int (round_half_even z)"
  have p: "0 < p" by (simp add: p_def)
  have split: "(2::real) powi (k + 1) = 2 ^ 53 * p"
    using power_int_add[of "2::real" 53 "k - 52"] by (simp add: add.commute p_def)
  have "\<bar>z\<bar> = \<bar>x\<bar> / p" using p by (simp add: z_def)
  also have "\<dots> \<le> 2 powi (k + 1) / p"
    using assms(2) p by (intro divide_right_mono) simp_all
  also have "\<dots> = 2 ^ 53" using p by (simp add: split)
  finally have "\<bar>z\<bar> \<le> 2 ^ 53" .
  then have zb: "z \<le> of_int (2 ^ 53)" "of_int (- (2 ^ 53)) \<le> z" by simp_all
  have "round_half_even z \<le> 2 ^ 53" using zb(1) by (rule round_half_even_le)
  moreover have "- (2 ^ 53) \<le> round_half_even z" using zb(2) by (rule round_half_even_ge)
  ultimately have "r \<le> of_int (2 ^ 53)" "of_int (- (2 ^ 53)) \<le> r"
    unfolding r_def by (simp_all only: of_int_le_iff)
  then have "\<bar>r\<bar> \<le> 2 ^ 53" by simp
  then have "\<bar>r\<bar> * p \<le> 2 ^ 53 * p"
    using p by (intro mult_right_mono) simp_all
  moreover have "nearest x = r * p"
    by (simp add: nearest_at[OF assms] r_def z_def p_def)
  then have "\<bar>nearest x\<bar> = \<bar>r\<bar> * p" using p by (simp add: abs_mult)
  ultimately show ?thesis by (simp add: split)
qed

lemma FLOAT_MAX_ge: "k \<le> 1023 \<Longrightarrow> 2 powi k \<le> FLOAT_MAX"
proof -
  assume "k \<le> 1023"
  then have "(2::real) powi k \<le> 2 powi 1023" by (intro power_int_increasing) simp_all
  also have "\<dots> \<le> FLOAT_MAX" by (simp add: FLOAT_MAX_def)
  finally show ?thesis .
qed

lemma fl_at:
  assumes "2 powi k \<le> \<bar>x\<bar>" and "\<bar>x\<bar> < 2 powi (k + 1)" and "- 1022 \<le> k" and "k \<le> 1022"
  shows "fl x = Finite (of_int (round_half_even (x / 2 powi (k - 52))) * 2 powi (k - 52))"
proof -
  have "\<bar>nearest x\<bar> \<le> 2 powi (k + 1)" by (rule nearest_bound[OF assms(1-3)])
  also have "\<dots> \<le> FLOAT_MAX" using assms(4) by (intro FLOAT_MAX_ge) simp
  finally have "\<not> FLOAT_MAX < \<bar>nearest x\<bar>" by simp
  then show ?thesis by (simp add: fl_def Let_def nearest_at[OF assms(1-3)])
qed

lemma fl_0: "fl 0 = Finite 0"
  by (simp add: fl_def nearest_def FLOAT_MAX_def)

lemma nearest_nonpos: "x \<le> 0 \<Longrightarrow> nearest x \<le> 0"
proof -
  assume x: "x \<le> 0"
  have "round_half_even (x / 2 powi e) \<le> 0" for e
    using x by (intro round_half_even_le) (simp add: divide_nonpos_pos)
  then show ?thesis
    by (simp add: nearest_def Let_def mult_le_0_iff)
qed

lemma fl_nonpos: "x \<le> 0 \<Longrightarrow> fl x = NegInf \<or> (\<exists>y\<le>0. fl x = Finite y)"
  using nearest_nonpos[of x] by (simp add: fl_def Let_def)

lemma math_log_nonpos: "h \<le> 0 \<Longrightarrow> math_log (fquot (Finite h) (Finite 100)) = Inl ValueError"
  using fl_nonpos[of "h / 100"] by (auto simp: fquot_def math_log_def)

lemma fl_overflow:
  assumes "2 powi 1024 \<le> x"
  shows "fl x = PosInf"
proof -
  have "(0::real) < 2 powi 1024" by simp
  with assms have xpos: "0 < x" by linarith
  define k where "k = \<lfloor>log 2 x\<rfloor>"
  have p1: "2 powr real_of_int k = (2::real) powi k"
    by (rule powr_real_of_int') simp_all
  have p2: "2 powr real_of_int (k + 1) = (2::real) powi (k + 1)"
    by (rule powr_real_of_int') simp_all
  have "2 powr real_of_int k \<le> x \<and> x < 2 powr (real_of_int k + 1)"
    using floor_log_eq_powr_iff[OF xpos, of 2 k] by (simp add: k_def)
  then have "2 powr real_of_int k \<le> x \<and> x < 2 powr real_of_int (k + 1)"
    by simp
  then have b: "2 powi k \<le> x" "x < 2 powi (k + 1)"
    by (simp_all only: p1 p2)
  have k: "1024 \<le> k"
  proof (rule ccontr)
    assume "\<not> 1024 \<le> k"
    then have "k + 1 \<le> 1024" by simp
    then have "(2::real) powi (k + 1) \<le> 2 powi 1024"
      by (intro power_int_increasing) simp_all
    with b(2) assms show False by linarith
  qed
  define p :: real where "p = 2 powi (k - 52)"
  have p: "0 < p" by (simp add: p_def)
  have split: "(2::real) powi k = 2 ^ 52 * p"
    using power_int_add[of "2::real" 52 "k - 52"] by (simp add: p_def)
  have n: "nearest x = of_int (round_half_even (x / p)) * p"
    unfolding p_def using b k xpos by (intro nearest_at) simp_all
  have "of_int (2 ^ 52) \<le> x / p"
    using b(1) p by (simp add: split pos_le_divide_eq)
  then have "2 ^ 52 \<le> round_half_even (x / p)" by (rule round_half_even_ge)
  then have "(2::real) ^ 52 \<le> of_int (round_half_even (x / p))"
    by (metis of_int_le_iff of_int_numeral of_int_power)
  then have "2 ^ 52 * p \<le> of_int (round_half_even (x / p)) * p"
    using p by (intro mult_right_mono) simp_all
  then have "2 powi k \<le> nearest x" by (simp add: n split)
  moreover have "(2::real) powi 1024 \<le> 2 powi k"
    using k by (intro power_int_increasing) simp_all
  moreover have "FLOAT_MAX < 2 powi 1024" by (simp add: FLOAT_MAX_def)
  ultimately have "FLOAT_MAX < \<bar>nearest x\<bar>" by linarith
  with xpos show ?thesis by (simp add: fl_def Let_def)
qed

lemma exp_overflow:
  assumes "1024 \<le> x"
  shows "fl (exp x) = PosInf"
proof -
  have "(2::real) \<le> exp 1" using exp_ge_add_one_self[of "1::real"] by simp
  then have "(2::real) ^ 1024 \<le> exp 1 ^ 1024" by (intro power_mono) simp_all
  also have "\<dots> = exp (1024::real)" using exp_of_nat_mult[of 1024 "1::real"] by simp
  also have "\<dots> \<le> exp x" using assms by simp
  finally have "2 powi 1024 \<le> exp x" by simp
  then show ?thesis by (rule fl_overflow)
qed

lemma math_exp_overflow: "1024 \<le> x \<Longrightarrow> math_exp (Finite x) = Inl OverflowError"
  by (simp add: math_exp_def exp_overflow)

lemma double_constants:
  "fl 17.67 = Finite (1243415709619323 / 2 ^ 46)"
  "fl 243.5 = Finite (487 / 2)"
  "fl 6.112 = Finite (3440750115311059 / 2 ^ 49)"
  "fl 287.05 = Finite (5049837004049613 / 2 ^ 44)"
  "fl 273.15 = Finite (2402652809016115 / 2 ^ 43)"
  "fl 1.225 = Finite (2758454771764429 / 2 ^ 51)"
  "fl 2.46 = Finite (2769713770832855 / 2 ^ 50)"
  "fl 21.37 = Finite (6015120252306719 / 2 ^ 48)"
  "fl 1 = Finite 1"
  "fl (- 0.5) = Finite (- 0.5)"
  by (subst fl_at[of 4], simp_all add: round_half_even_def)
     (subst fl_at[of 7], simp_all add: round_half_even_def,
      subst fl_at[of 2], simp_all add: round_half_even_def,
      subst fl_at[of 8], simp_all add: round_half_even_def,
      subst fl_at[of 8], simp_all add: round_half_even_def,
      subst fl_at[of 0], simp_all add: round_half_even_def,
      subst fl_at[of 1], simp_all add: round_half_even_def,
      subst fl_at[of 4], simp_all add: round_half_even_def,
      subst fl_at[of 0], simp_all add: round_half_even_def,
      subst fl_at[of "-1"], simp_all add: round_half_even_def)

lemma double_examples:
  "fl 21.4 = Finite (3011782250804019 / 2 ^ 47)"
  "fl 274.1 = Finite (2411009097387213 / 2 ^ 43)"
  "fl 1.2884 = Finite (5802437759904147 / 2 ^ 52)"
  "fl 1013.25 = Finite 1013.25"
  "fl (- 39.5) = Finite (- 39.5)"
  by (subst fl_at[of 4], simp_all add: round_half_even_def)
     (subst fl_at[of 8], simp_all add: round_half_even_def,
      subst fl_at[of 0], simp_all add: round_half_even_def,
      subst fl_at[of 9], simp_all add: round_half_even_def,
      subst fl_at[of 5], simp_all add: round_half_even_def)

section \<open>Cardinal direction\<close>

lemma index_in_table: "nat (k mod 16) < length directions"
  by (simp add: directions_def nat_less_iff)

lemma sector_nearest: "\<bar>x - 22.5 * of_int (round_half_even (x / 22.5))\<bar> \<le> 11.25"
proof -
  define r :: real where "r = of_int (round_half_even (x / 22.5))"
  have "\<bar>r - x / 22.5\<bar> \<le> 1 / 2"
    unfolding r_def by (rule round_half_even_close)
  then have "r - x / 22.5 \<le> 1 / 2" "x / 22.5 - r \<le> 1 / 2" by linarith+
  then have "22.5 * r - x \<le> 11.25" "x - 22.5 * r \<le> 11.25" by (simp_all add: field_simps)
  then have "\<bar>x - 22.5 * r\<bar> \<le> 11.25" by linarith
  then show ?thesis by (simp only: r_def)
qed

lemma wraparound_north:
  assumes "348.75 < x" and "x < 360"
  shows "cardinal_direction x = ''N''"
proof -
  have "of_int 15 + 1 / 2 < x / 22.5" "x / 22.5 < of_int 15 + 1" using assms by simp_all
  then have "round_half_even (x / 22.5) = 15 + 1" by (rule round_half_even_above)
  then have "cardinal_direction x = directions ! nat (16 mod 16)"
    by (simp only: cardinal_direction_def Let_def) simp
  then show ?thesis by (simp add: directions_def)
qed

lemma cardinal_examples:
  "cardinal_direction 0 = ''N''" "cardinal_direction 354 = ''N''"
  "cardinal_direction 90 = ''E''" "cardinal_direction 180 = ''S''"
  by (simp_all add: cardinal_direction_def round_half_even_def directions_def)

text \<open>
  Claim C9. For every wind direction from 0 up to 360 degrees, the label is the entry
  of the table of sixteen compass points at index \<open>round(degrees / 22.5) mod 16\<close>. The
  index is inside the table, the compass point chosen lies at most half a sector
  (11.25 degrees) from the direction, and the last half sector wraps around to north.
  In particular 0 and 354 degrees are north, 90 is east and 180 is south.
\<close>

theorem cardinal_direction_sectors:
  assumes "0 \<le> x" and "x < 360"
  shows "cardinal_direction x = directions ! nat (round_half_even (x / 22.5) mod 16)
       \<and> nat (round_half_even (x / 22.5) mod 16) < length directions
       \<and> \<bar>x - 22.5 * of_int (round_half_even (x / 22.5))\<bar> \<le> 11.25
       \<and> (348.75 < x \<longrightarrow> cardinal_direction x = ''N'')
       \<and> cardinal_direction 0 = ''N'' \<and> cardinal_direction 354 = ''N''
       \<and> cardinal_direction 90 = ''E'' \<and> cardinal_direction 180 = ''S''"
proof (intro conjI impI)
  show "cardinal_direction x = directions ! nat (round_half_even (x / 22.5) mod 16)"
    by (simp only: cardinal_direction_def Let_def)
  show "nat (round_half_even (x / 22.5) mod 16) < length directions"
    by (rule index_in_table)
  show "\<bar>x - 22.5 * of_int (round_half_even (x / 22.5))\<bar> \<le> 11.25"
    by (rule sector_nearest)
  show "cardinal_direction x = ''N''" if "348.75 < x"
    using that assms(2) by (rule wraparound_north)
qed (rule cardinal_examples)+

theorem cardinal_direction_sectors_witness:
  "(0::real) \<le> 354 \<and> (354::real) < 360
   \<and> cardinal_direction 354 = directions ! nat (round_half_even (354 / 22.5) mod 16)
   \<and> round_half_even (354 / 22.5) = 16
   \<and> directions ! nat (16 mod 16) = ''N''
   \<and> cardinal_direction 354 = ''N''"
  using cardinal_direction_sectors[of 354]
  by (simp add: round_half_even_def directions_def)


section \<open>Temperature conversion\<close>

lemma convert_examples:
  "round_float (fadd (fquot (fmul (Finite 20) (Finite 9)) (Finite 5)) (Finite 32)) 1 = Finite 68"
  "round_float (fadd (fquot (fmul (Finite (- 39.75)) (Finite 9)) (Finite 5)) (Finite 32)) 1
     = fl (- 39.5)"
  "round_float (fadd (Finite 1) (fl 273.15)) 1 = fl 274.1"
  "round_float (fl 21.37) 1 = fl 21.4"
proof -
  have s1: "fadd (Finite 1) (Finite (2402652809016115 / 2 ^ 43)) = Finite (2411448902038323 / 2 ^ 43)"
    by (simp add: fadd_def, subst fl_at[of "8"], simp_all add: round_half_even_def)
  have s2: "round_float (Finite (2411448902038323 / 2 ^ 43)) 1 = Finite (2411009097387213 / 2 ^ 43)"
    by (simp add: round_float_def py_round_def round_half_even_def, subst fl_at[of "8"], simp_all add: round_half_even_def)
  have s3: "fmul (Finite (- 39.75)) (Finite 9) = Finite (- (1431 / 2 ^ 2))"
    by (simp add: fmul_def, subst fl_at[of "8"], simp_all add: round_half_even_def)
  have s4: "fquot (Finite (- (1431 / 2 ^ 2))) (Finite 5) = Finite (- (5034883645911859 / 2 ^ 46))"
    by (simp add: fquot_def, subst fl_at[of "6"], simp_all add: round_half_even_def)
  have s5: "fadd (Finite (- (5034883645911859 / 2 ^ 46))) (Finite 32) = Finite (- (2783083832226611 / 2 ^ 46))"
    by (simp add: fadd_def, subst fl_at[of "5"], simp_all add: round_half_even_def)
  have s6: "round_float (Finite (- (2783083832226611 / 2 ^ 46))) 1 = Finite (- 39.5)"
    by (simp add: round_float_def py_round_def round_half_even_def, subst fl_at[of "5"], simp_all add: round_half_even_def)
  have s7: "fmul (Finite 20) (Finite 9) = Finite 180"
    by (simp add: fmul_def, subst fl_at[of "7"], simp_all add: round_half_even_def)
  have s8: "fquot (Finite 180) (Finite 5) = Finite 36"
    by (simp add: fquot_def, subst fl_at[of "5"], simp_all add: round_half_even_def)
  have s9: "fadd (Finite 36) (Finite 32) = Finite 68"
    by (simp add: fadd_def, subst fl_at[of "6"], simp_all add: round_half_even_def)
  have s10: "round_float (Finite 68) 1 = Finite 68"
    by (simp add: round_float_def py_round_def round_half_even_def, subst fl_at[of "6"], simp_all add: round_half_even_def)
  have s11: "round_float (Finite (6015120252306719 / 2 ^ 48)) 1 = Finite (3011782250804019 / 2 ^ 47)"
    by (simp add: round_float_def py_round_def round_half_even_def, subst fl_at[of "4"], simp_all add: round_half_even_def)
  show "round_float (fadd (fquot (fmul (Finite 20) (Finite 9)) (Finite 5)) (Finite 32)) 1 = Finite 68"
    by (simp only: s7 s8 s9 s10)
  show "round_float (fadd (fquot (fmul (Finite (- 39.75)) (Finite 9)) (Finite 5)) (Finite 32)) 1
     = fl (- 39.5)"
    by (simp only: s3 s4 s5 s6 double_examples)
  show "round_float (fadd (Finite 1) (fl 273.15)) 1 = fl 274.1"
    by (simp only: double_constants double_examples s1 s2)
  show "round_float (fl 21.37) 1 = fl 21.4"
    by (simp only: double_constants double_examples s11)
qed

text \<open>
  Claim C4, as the code has it. For every temperature and every unit string the
  conversion returns a value and a symbol: for \<open>fahrenheit\<close> the float product with 9,
  divided by 5, plus 32; for \<open>kelvin\<close> the float sum with the double \<open>273.15\<close>; and for
  every other string, \<open>celsius\<close> and unknown units alike, the temperature itself with
  the Celsius symbol. Each value is rounded to one decimal by \<open>round\<close>: the decimal
  rounding of the stored double, within 0.05 of it, stored as a double again. No unit
  makes the call fail.
\<close>

theorem convert_temperature_units:
  "(u = ''fahrenheit'' \<longrightarrow>
      convert_temperature t u
        = (round_float (fadd (fquot (fmul t (Finite 9)) (Finite 5)) (Finite 32)) 1, deg_F))
   \<and> (u = ''kelvin'' \<longrightarrow> convert_temperature t u = (round_float (fadd t (fl 273.15)) 1, ''K''))
   \<and> (u \<noteq> ''fahrenheit'' \<and> u \<noteq> ''kelvin'' \<longrightarrow> convert_temperature t u = (round_float t 1, deg_C))
   \<and> round_float (Finite x) 1 = fl (py_round x 1)
   \<and> \<bar>py_round x 1 - x\<bar> \<le> 0.05"
  using py_round_close[of x 1]
  by (simp add: convert_temperature_def KELVIN_OFFSET_def round_float_def)

theorem convert_temperature_units_witness:
  "convert_temperature (Finite 20) ''fahrenheit'' = (Finite 68, deg_F)
   \<and> convert_temperature (Finite (- 39.75)) ''fahrenheit'' = (fl (- 39.5), deg_F)
   \<and> convert_temperature (Finite 1) ''kelvin'' = (fl 274.1, ''K'')
   \<and> ''celsius'' \<noteq> ''fahrenheit'' \<and> ''celsius'' \<noteq> ''kelvin''
   \<and> convert_temperature (fl 21.37) ''celsius'' = (fl 21.4, deg_C)
   \<and> ''rankine'' \<noteq> ''fahrenheit'' \<and> ''rankine'' \<noteq> ''kelvin''
   \<and> convert_temperature (fl 21.37) ''rankine'' = (fl 21.4, deg_C)
   \<and> round_float (Finite 0.25) 1 = fl 0.2
   \<and> \<bar>py_round 0.25 1 - 0.25\<bar> \<le> (0.05 :: real)"
proof -
  have c: "''celsius'' \<noteq> ''fahrenheit'' \<and> ''celsius'' \<noteq> ''kelvin''" by simp
  have r: "''rankine'' \<noteq> ''fahrenheit'' \<and> ''rankine'' \<noteq> ''kelvin''" by simp
  have p: "py_round 0.25 1 = 0.2" by (simp add: py_round_def round_half_even_def)
  note f = convert_temperature_units[of "''fahrenheit''" _ "0.25", THEN conjunct1, rule_format, OF refl]
  note k = convert_temperature_units[of "''kelvin''" _ "0.25", THEN conjunct2, THEN conjunct1,
      rule_format, OF refl]
  note e = convert_temperature_units[of _ _ "0.25", THEN conjunct2, THEN conjunct2, THEN conjunct1,
      rule_format]
  note x = convert_temperature_units[of "''celsius''" "Finite 0" "0.25", THEN conjunct2, THEN conjunct2,
      THEN conjunct2]
  have 1: "convert_temperature (Finite 20) ''fahrenheit'' = (Finite 68, deg_F)"
    using f[of "Finite 20"] by (simp only: convert_examples)
  have 2: "convert_temperature (Finite (- 39.75)) ''fahrenheit'' = (fl (- 39.5), deg_F)"
    using f[of "Finite (- 39.75)"] by (simp only: convert_examples)
  have 3: "convert_temperature (Finite 1) ''kelvin'' = (fl 274.1, ''K'')"
    using k[of "Finite 1"] by (simp only: convert_examples)
  have 4: "convert_temperature (fl 21.37) ''celsius'' = (fl 21.4, deg_C)"
    using e[OF c, of "fl 21.37"] by (simp only: convert_examples)
  have 5: "convert_temperature (fl 21.37) ''rankine'' = (fl 21.4, deg_C)"
    using e[OF r, of "fl 21.37"] by (simp only: convert_examples)
  have 6: "round_float (Finite 0.25) 1 = fl 0.2"
    using x[THEN conjunct1] by (simp only: p)
  have 7: "\<bar>py_round 0.25 1 - 0.25\<bar> \<le> (0.05 :: real)"
    using x[THEN conjunct2] .
  from 1 2 3 c 4 r 5 6 7 show ?thesis by (intro conjI) (erule conjunct1 conjunct2 | assumption)+
qed

text \<open>
  Claim C4 as stated fails: \<open>rankine\<close> is none of the three units, and the call
  returns the Celsius value instead of failing with an invalid unit.
\<close>

theorem convert_temperature_unknown_unit:
  "''rankine'' \<notin> {''celsius'', ''fahrenheit'', ''kelvin''}
   \<and> convert_temperature (Finite 20) ''rankine'' = (Finite 20, deg_C)"
proof -
  have "round_float (Finite 20) 1 = Finite 20"
    by (simp add: round_float_def py_round_def round_half_even_def, subst fl_at[of "4"], simp_all add: round_half_even_def)
  then show ?thesis by (simp add: convert_temperature_def)
qed

section \<open>Heat index\<close>

lemma rothfusz_steps:
  "- 42.379 + 2.04901523 * t + 10.14333127 * h - 0.22475541 * t * h
     - 0.00683783 * t * t - 0.05481717 * h * h + 0.00122874 * t * t * h
     + 0.00085282 * t * h * h - 0.00000199 * t * t * h * h = rothfusz t h"
  by (simp only: rothfusz_def power2_eq_square mult.assoc)

text \<open>
  Claim C7. When the Fahrenheit conversion of the temperature is below 80, the heat
  index is the input temperature itself, not rounded; from 80 on it is the Rothfusz
  polynomial in the Fahrenheit temperature and the humidity, converted back to
  Celsius and rounded to two decimals.
\<close>

theorem heat_index_short_circuit:
  "(T * 9 / 5 + 32 < 80 \<longrightarrow> calculate_heat_index T H = T)
   \<and> (80 \<le> T * 9 / 5 + 32 \<longrightarrow>
        calculate_heat_index T H = py_round ((rothfusz (T * 9 / 5 + 32) H - 32) * 5 / 9) 2)"
proof (intro conjI impI)
  assume "T * 9 / 5 + 32 < 80"
  then show "calculate_heat_index T H = T"
    by (simp only: calculate_heat_index_def Let_def if_True)
next
  assume "80 \<le> T * 9 / 5 + 32"
  then have "\<not> T * 9 / 5 + 32 < 80" by (simp only: not_less)
  then show "calculate_heat_index T H = py_round ((rothfusz (T * 9 / 5 + 32) H - 32) * 5 / 9) 2"
    unfolding calculate_heat_index_def Let_def rothfusz_steps
    by (simp only: if_False)
qed

theorem heat_index_short_circuit_witness:
  "(20::real) * 9 / 5 + 32 < 80 \<and> calculate_heat_index 20 50 = 20
   \<and> 80 \<le> (30::real) * 9 / 5 + 32 \<and> calculate_heat_index 30 70 = 35.04"
  using heat_index_short_circuit[of 20 50] heat_index_short_circuit[of 30 70]
  by (simp add: rothfusz_def py_round_def round_half_even_def)

section \<open>Fallbacks of the derivation functions\<close>

lemma math_log_1: "math_log (Finite 1) = Inr (Finite 0)"
  by (simp add: math_log_def fl_0)

lemma math_exp_0: "math_exp (Finite 0) = Inr (Finite 1)"
  by (simp add: math_exp_def double_constants)

lemma humidity_examples:
  "fquot (Finite 100) (Finite 100) = Finite 1"
  "fquot (Finite 50) (Finite 100) = Finite (1 / 2 ^ 1)"
  "fquot (Finite 0) (Finite 100) = Finite 0"
  by (simp add: fquot_def double_constants)
     (simp add: fquot_def, subst fl_at[of "-1"], simp_all add: round_half_even_def,
      simp add: fquot_def fl_0)

lemma magnus_20:
  "fdiv (fmul VAPOR_PRESSURE_COEFF (Finite 20)) (fadd VAPOR_PRESSURE_TEMP_BASE (Finite 20))
     = Inr (Finite (3020060926589627 / 2 ^ 51))"
proof -
  have s1: "fmul (Finite (1243415709619323 / 2 ^ 46)) (Finite 20) = Finite (6217078548096615 / 2 ^ 44)"
    by (simp add: fmul_def, subst fl_at[of "8"], simp_all add: round_half_even_def)
  have s2: "fadd (Finite (487 / 2)) (Finite 20) = Finite (527 / 2 ^ 1)"
    by (simp add: fadd_def, subst fl_at[of "8"], simp_all add: round_half_even_def)
  have s3: "fquot (Finite (6217078548096615 / 2 ^ 44)) (Finite (527 / 2 ^ 1)) = Finite (3020060926589627 / 2 ^ 51)"
    by (simp add: fquot_def, subst fl_at[of "0"], simp_all add: round_half_even_def)
  show ?thesis
    by (simp only: fdiv_def VAPOR_PRESSURE_COEFF_def VAPOR_PRESSURE_TEMP_BASE_def double_constants
        s1 s2 s3) simp
qed

lemma dewpoint_20_0: "calculate_dewpoint_try (Finite 20) (Finite 0) = Inl ValueError"
proof -
  have "math_log (fquot (Finite 0) (Finite 100)) = Inl ValueError"
    by (rule math_log_nonpos) simp
  then show ?thesis
    by (simp only: calculate_dewpoint_try_def Let_def magnus_20 sum.case)
qed

lemma dewpoint_20_100: "calculate_dewpoint_try (Finite 20) (Finite 100) = Inr (Finite 20)"
proof -
  have s4: "fadd (Finite (3020060926589627 / 2 ^ 51)) (Finite 0) = Finite (3020060926589627 / 2 ^ 51)"
    by (simp add: fadd_def, subst fl_at[of "0"], simp_all add: round_half_even_def)
  have s5: "fmul (Finite (487 / 2)) (Finite (3020060926589627 / 2 ^ 51)) = Finite (2872597014158493 / 2 ^ 43)"
    by (simp add: fmul_def, subst fl_at[of "8"], simp_all add: round_half_even_def)
  have s6: "fsub (Finite (1243415709619323 / 2 ^ 46)) (Finite (3020060926589627 / 2 ^ 51)) = Finite (4596155222653589 / 2 ^ 48)"
    by (simp add: fsub_def fneg_def fadd_def, subst fl_at[of "4"], simp_all add: round_half_even_def)
  have s7: "fquot (Finite (2872597014158493 / 2 ^ 43)) (Finite (4596155222653589 / 2 ^ 48)) = Finite 20"
    by (simp add: fquot_def, subst fl_at[of "4"], simp_all add: round_half_even_def)
  have s8: "round_float (Finite 20) 2 = Finite 20"
    by (simp add: round_float_def py_round_def round_half_even_def, subst fl_at[of "4"], simp_all add: round_half_even_def)
  have d: "fdiv (fmul (Finite (487 / 2)) (Finite (3020060926589627 / 2 ^ 51)))
                (fsub (Finite (1243415709619323 / 2 ^ 46)) (Finite (3020060926589627 / 2 ^ 51)))
             = Inr (Finite 20)"
    by (simp only: fdiv_def s5 s6 s7) simp
  have "calculate_dewpoint_try (Finite 20) (Finite 100)
          = (case fdiv (fmul VAPOR_PRESSURE_TEMP_BASE
                               (fadd (Finite (3020060926589627 / 2 ^ 51)) (Finite 0)))
                       (fsub VAPOR_PRESSURE_COEFF
                               (fadd (Finite (3020060926589627 / 2 ^ 51)) (Finite 0))) of
               Inl e \<Rightarrow> Inl e | Inr dewpoint \<Rightarrow> Inr (round_float dewpoint 2))"
    by (simp only: calculate_dewpoint_try_def Let_def magnus_20 humidity_examples math_log_1 sum.case)
  then show ?thesis
    by (simp only: VAPOR_PRESSURE_COEFF_def VAPOR_PRESSURE_TEMP_BASE_def double_constants s4 d s8
        sum.case)
qed

lemma dewpoint_zero_denominator:
  "fdiv (fmul VAPOR_PRESSURE_COEFF (Finite (2 ^ 600))) (fadd VAPOR_PRESSURE_TEMP_BASE (Finite (2 ^ 600)))
     = Inr VAPOR_PRESSURE_COEFF"
  "fsub VAPOR_PRESSURE_COEFF (fadd VAPOR_PRESSURE_COEFF (Finite 0)) = Finite 0"
proof -
  have s1: "fmul (Finite (1243415709619323 / 2 ^ 46)) (Finite (2 ^ 600))
              = Finite (1243415709619323 * 2 ^ 554)"
    by (simp add: fmul_def, subst fl_at[of "604"], simp_all add: round_half_even_def)
  have s2: "fadd (Finite (487 / 2)) (Finite (2 ^ 600)) = Finite (2 ^ 600)"
    by (simp add: fadd_def, subst fl_at[of "600"], simp_all add: round_half_even_def)
  have s3: "fquot (Finite (1243415709619323 * 2 ^ 554)) (Finite (2 ^ 600)) = Finite (1243415709619323 / 2 ^ 46)"
    by (simp add: fquot_def, subst fl_at[of "4"], simp_all add: round_half_even_def)
  have s4: "fadd (Finite (1243415709619323 / 2 ^ 46)) (Finite 0) = Finite (1243415709619323 / 2 ^ 46)"
    by (simp add: fadd_def, subst fl_at[of "4"], simp_all add: round_half_even_def)
  have s5: "fsub (Finite (1243415709619323 / 2 ^ 46)) (Finite (1243415709619323 / 2 ^ 46)) = Finite 0"
    by (simp add: fsub_def fneg_def fadd_def fl_0)
  show "fdiv (fmul VAPOR_PRESSURE_COEFF (Finite (2 ^ 600))) (fadd VAPOR_PRESSURE_TEMP_BASE (Finite (2 ^ 600)))
     = Inr VAPOR_PRESSURE_COEFF"
    by (simp only: fdiv_def VAPOR_PRESSURE_COEFF_def VAPOR_PRESSURE_TEMP_BASE_def double_constants
        s1 s2 s3) simp
  show "fsub VAPOR_PRESSURE_COEFF (fadd VAPOR_PRESSURE_COEFF (Finite 0)) = Finite 0"
    by (simp only: VAPOR_PRESSURE_COEFF_def double_constants s4 s5)
qed

lemma zero_denominators:
  "fadd VAPOR_PRESSURE_TEMP_BASE (Finite (- 243.5)) = Finite 0"
  "fadd (Finite (- 243.5)) VAPOR_PRESSURE_TEMP_BASE = Finite 0"
  "fmul GAS_CONSTANT_DRY_AIR (fadd (fneg KELVIN_OFFSET) KELVIN_OFFSET) = Finite 0"
  by (simp_all only: VAPOR_PRESSURE_TEMP_BASE_def GAS_CONSTANT_DRY_AIR_def KELVIN_OFFSET_def
      double_constants)
     (simp_all add: fadd_def fmul_def fneg_def fl_0)

lemma density_exp_overflow:
  "fdiv (fmul VAPOR_PRESSURE_COEFF (Finite (- 244))) (fadd (Finite (- 244)) VAPOR_PRESSURE_TEMP_BASE)
     = Inr (Finite (4740522392923669 / 2 ^ 39))"
  "math_exp (Finite (4740522392923669 / 2 ^ 39)) = Inl OverflowError"
proof -
  have s1: "fmul (Finite (1243415709619323 / 2 ^ 46)) (Finite (- 244)) = Finite (- (4740522392923669 / 2 ^ 40))"
    by (simp add: fmul_def, subst fl_at[of "12"], simp_all add: round_half_even_def)
  have s2: "fadd (Finite (- 244)) (Finite (487 / 2)) = Finite (- (1 / 2 ^ 1))"
    by (simp add: fadd_def, subst fl_at[of "-1"], simp_all add: round_half_even_def)
  have s3: "fquot (Finite (- (4740522392923669 / 2 ^ 40))) (Finite (- (1 / 2 ^ 1))) = Finite (4740522392923669 / 2 ^ 39)"
    by (simp add: fquot_def, subst fl_at[of "13"], simp_all add: round_half_even_def)
  show "fdiv (fmul VAPOR_PRESSURE_COEFF (Finite (- 244))) (fadd (Finite (- 244)) VAPOR_PRESSURE_TEMP_BASE)
     = Inr (Finite (4740522392923669 / 2 ^ 39))"
    by (simp only: fdiv_def VAPOR_PRESSURE_COEFF_def VAPOR_PRESSURE_TEMP_BASE_def double_constants
        s1 s2 s3) simp
  show "math_exp (Finite (4740522392923669 / 2 ^ 39)) = Inl OverflowError"
    by (rule math_exp_overflow) simp
qed

lemma density_first_steps:
  "fdiv (fmul VAPOR_PRESSURE_COEFF (Finite 0)) (fadd (Finite 0) VAPOR_PRESSURE_TEMP_BASE) = Inr (Finite 0)"
  "fmul VAPOR_PRESSURE_BASE (Finite 1) = Finite (3440750115311059 / 2 ^ 49)"
  "fmul GAS_CONSTANT_DRY_AIR (fadd (Finite 0) KELVIN_OFFSET) = Finite (2694068315734671 / 2 ^ 35)"
proof -
  have s1: "fadd (Finite 0) (Finite (2402652809016115 / 2 ^ 43)) = Finite (2402652809016115 / 2 ^ 43)"
    by (simp add: fadd_def, subst fl_at[of "8"], simp_all add: round_half_even_def)
  have s2: "fmul (Finite (1243415709619323 / 2 ^ 46)) (Finite 0) = Finite 0"
    by (simp add: fmul_def fl_0)
  have s3: "fadd (Finite 0) (Finite (487 / 2)) = Finite (487 / 2)"
    by (simp add: fadd_def, subst fl_at[of "7"], simp_all add: round_half_even_def)
  have s4: "fquot (Finite 0) (Finite (487 / 2)) = Finite 0"
    by (simp add: fquot_def fl_0)
  have s5: "fmul (Finite (3440750115311059 / 2 ^ 49)) (Finite 1) = Finite (3440750115311059 / 2 ^ 49)"
    by (simp add: fmul_def, subst fl_at[of "2"], simp_all add: round_half_even_def)
  have s11: "fmul (Finite (5049837004049613 / 2 ^ 44)) (Finite (2402652809016115 / 2 ^ 43)) = Finite (2694068315734671 / 2 ^ 35)"
    by (simp add: fmul_def, subst fl_at[of "16"], simp_all add: round_half_even_def)
  show "fdiv (fmul VAPOR_PRESSURE_COEFF (Finite 0)) (fadd (Finite 0) VAPOR_PRESSURE_TEMP_BASE) = Inr (Finite 0)"
    by (simp only: fdiv_def VAPOR_PRESSURE_COEFF_def VAPOR_PRESSURE_TEMP_BASE_def double_constants
        s2 s3 s4) simp
  show "fmul VAPOR_PRESSURE_BASE (Finite 1) = Finite (3440750115311059 / 2 ^ 49)"
    by (simp only: VAPOR_PRESSURE_BASE_def double_constants s5)
  show "fmul GAS_CONSTANT_DRY_AIR (fadd (Finite 0) KELVIN_OFFSET) = Finite (2694068315734671 / 2 ^ 35)"
    by (simp only: GAS_CONSTANT_DRY_AIR_def KELVIN_OFFSET_def double_constants s1 s11)
qed

lemma density_0_1013_50:
  "calculate_air_density_try (Finite 0) (fl 1013.25) (Finite 50) = Inr (fl 1.2884)"
proof -
  have s7: "fmul (Finite (1 / 2 ^ 1)) (Finite (3440750115311059 / 2 ^ 49)) = Finite (3440750115311059 / 2 ^ 50)"
    by (simp add: fmul_def, subst fl_at[of "1"], simp_all add: round_half_even_def)
  have s8: "fmul (Finite 1013.25) (Finite 100) = Finite 101325"
    by (simp add: fmul_def, subst fl_at[of "16"], simp_all add: round_half_even_def)
  have s9: "fmul (Finite (3440750115311059 / 2 ^ 50)) (Finite 100) = Finite (2688086027586765 / 2 ^ 43)"
    by (simp add: fmul_def, subst fl_at[of "8"], simp_all add: round_half_even_def)
  have s10: "fsub (Finite 101325) (Finite (2688086027586765 / 2 ^ 43)) = Finite (3471000154092339 / 2 ^ 35)"
    by (simp add: fsub_def fneg_def fadd_def, subst fl_at[of "16"], simp_all add: round_half_even_def)
  have s12: "fquot (Finite (3471000154092339 / 2 ^ 35)) (Finite (2694068315734671 / 2 ^ 35)) = Finite (5802375132536443 / 2 ^ 52)"
    by (simp add: fquot_def, subst fl_at[of "0"], simp_all add: round_half_even_def)
  have s13: "round_float (Finite (5802375132536443 / 2 ^ 52)) 4 = Finite (5802437759904147 / 2 ^ 52)"
    by (simp add: round_float_def py_round_def round_half_even_def, subst fl_at[of "0"], simp_all add: round_half_even_def)
  have d: "fdiv (Finite (3471000154092339 / 2 ^ 35)) (Finite (2694068315734671 / 2 ^ 35))
             = Inr (Finite (5802375132536443 / 2 ^ 52))"
    by (simp only: fdiv_def s12) simp
  show ?thesis
    by (simp only: calculate_air_density_try_def Let_def density_first_steps math_exp_0
        humidity_examples double_examples s7 s8 s9 s10 d s13 sum.case)
qed

lemma density_overflow:
  "calculate_air_density_try (Finite 0) (Finite (2 ^ 1022)) (Finite 0) = Inr PosInf"
proof -
  have s1: "fmul (Finite 0) (Finite (3440750115311059 / 2 ^ 49)) = Finite 0"
    by (simp add: fmul_def fl_0)
  have s2: "fmul (Finite 0) (Finite 100) = Finite 0"
    by (simp add: fmul_def fl_0)
  have s3: "fmul (Finite (2 ^ 1022)) (Finite 100) = PosInf"
    unfolding fmul_def by (simp, rule fl_overflow, simp)
  have s4: "fsub PosInf (Finite 0) = PosInf"
    by (simp add: fsub_def fneg_def fadd_def)
  have d: "fdiv PosInf (Finite (2694068315734671 / 2 ^ 35)) = Inr PosInf"
    by (simp add: fdiv_def fquot_def positive_def)
  have r: "round_float PosInf 4 = PosInf"
    by (simp add: round_float_def)
  show ?thesis
    by (simp only: calculate_air_density_try_def Let_def density_first_steps math_exp_0
        humidity_examples s1 s2 s3 s4 d r sum.case)
qed

lemma dewpoint_overflow:
  "calculate_dewpoint_try (Finite (2 ^ 1022)) (Finite 100) = Inr NaN"
proof -
  have s1: "fmul (Finite (1243415709619323 / 2 ^ 46)) (Finite (2 ^ 1022)) = PosInf"
    unfolding fmul_def by (simp, rule fl_overflow, simp)
  have s2: "fadd (Finite (487 / 2)) (Finite (2 ^ 1022)) = Finite (2 ^ 1022)"
    by (simp add: fadd_def, subst fl_at[of "1022"], simp_all add: round_half_even_def)
  have q: "fdiv PosInf (Finite (2 ^ 1022)) = Inr PosInf"
    by (simp add: fdiv_def fquot_def positive_def)
  have s3: "fadd PosInf (Finite 0) = PosInf" "fmul (Finite (487 / 2)) PosInf = PosInf"
    "fsub (Finite (1243415709619323 / 2 ^ 46)) PosInf = NegInf"
    by (simp_all add: fadd_def fmul_def fsub_def fneg_def positive_def)
  have d: "fdiv PosInf NegInf = Inr NaN"
    by (simp add: fdiv_def fquot_def)
  have r: "round_float NaN 2 = NaN"
    by (simp add: round_float_def)
  show ?thesis
    by (simp only: calculate_dewpoint_try_def Let_def VAPOR_PRESSURE_COEFF_def
        VAPOR_PRESSURE_TEMP_BASE_def double_constants s1 s2 q humidity_examples math_log_1 s3 d r
        sum.case)
qed

lemma cloud_examples:
  "fmul (Finite 125) (fsub (Finite FLOAT_MAX) (Finite (- FLOAT_MAX))) = PosInf"
  "fmul (Finite 125) (fsub (Finite 10.5) (fl 2.46)) = Finite (8840073487319039 / 2 ^ 43)"
  "fmul (Finite 125) (fsub (fl 2.46) (Finite 10.5)) = Finite (- (8840073487319039 / 2 ^ 43))"
proof -
  have "fl (FLOAT_MAX + FLOAT_MAX) = PosInf"
    by (rule fl_overflow) (simp add: FLOAT_MAX_def)
  then show "fmul (Finite 125) (fsub (Finite FLOAT_MAX) (Finite (- FLOAT_MAX))) = PosInf"
    by (simp add: fsub_def fneg_def fadd_def fmul_def positive_def)
  have s1: "fsub (Finite 10.5) (Finite (2769713770832855 / 2 ^ 50)) = Finite (1131529406376837 / 2 ^ 47)"
    by (simp add: fsub_def fneg_def fadd_def, subst fl_at[of "3"], simp_all add: round_half_even_def)
  have s2: "fmul (Finite 125) (Finite (1131529406376837 / 2 ^ 47)) = Finite (8840073487319039 / 2 ^ 43)"
    by (simp add: fmul_def, subst fl_at[of "9"], simp_all add: round_half_even_def)
  have s3: "fsub (Finite (2769713770832855 / 2 ^ 50)) (Finite 10.5) = Finite (- (1131529406376837 / 2 ^ 47))"
    by (simp add: fsub_def fneg_def fadd_def, subst fl_at[of "3"], simp_all add: round_half_even_def)
  have s4: "fmul (Finite 125) (Finite (- (1131529406376837 / 2 ^ 47))) = Finite (- (8840073487319039 / 2 ^ 43))"
    by (simp add: fmul_def, subst fl_at[of "9"], simp_all add: round_half_even_def)
  show "fmul (Finite 125) (fsub (Finite 10.5) (fl 2.46)) = Finite (8840073487319039 / 2 ^ 43)"
    by (simp only: double_constants s1 s2)
  show "fmul (Finite 125) (fsub (fl 2.46) (Finite 10.5)) = Finite (- (8840073487319039 / 2 ^ 43))"
    by (simp only: double_constants s3 s4)
qed

lemma dewpoint_raise:
  "calculate_dewpoint_try T H = Inl e \<Longrightarrow> calculate_dewpoint T H = Finite 0"
  by (simp add: calculate_dewpoint_def)

lemma dewpoint_humidity:
  "h \<le> 0 \<Longrightarrow> \<exists>e. calculate_dewpoint_try T (Finite h) = Inl e"
  by (simp add: calculate_dewpoint_try_def Let_def math_log_nonpos split: sum.split)

lemma dewpoint_first_denominator:
  "fadd VAPOR_PRESSURE_TEMP_BASE T = Finite 0 \<Longrightarrow> \<exists>e. calculate_dewpoint_try T H = Inl e"
  by (simp add: calculate_dewpoint_try_def Let_def fdiv_def)

lemma dewpoint_second_denominator:
  assumes "fdiv (fmul VAPOR_PRESSURE_COEFF T) (fadd VAPOR_PRESSURE_TEMP_BASE T) = Inr q"
    and "math_log (fquot H (Finite 100)) = Inr l"
    and "fsub VAPOR_PRESSURE_COEFF (fadd q l) = Finite 0"
  shows "\<exists>e. calculate_dewpoint_try T H = Inl e"
  using assms by (simp add: calculate_dewpoint_try_def Let_def fdiv_def)

lemma density_raise:
  "calculate_air_density_try T P H = Inl e \<Longrightarrow> calculate_air_density T P H = fl 1.225"
  by (simp add: calculate_air_density_def)

lemma density_first_denominator:
  "fadd T VAPOR_PRESSURE_TEMP_BASE = Finite 0 \<Longrightarrow> \<exists>e. calculate_air_density_try T P H = Inl e"
  by (simp add: calculate_air_density_try_def Let_def fdiv_def)

lemma density_exp:
  assumes "fdiv (fmul VAPOR_PRESSURE_COEFF T) (fadd T VAPOR_PRESSURE_TEMP_BASE) = Inr x"
    and "math_exp x = Inl e"
  shows "calculate_air_density_try T P H = Inl e"
  using assms by (simp add: calculate_air_density_try_def Let_def)

lemma density_second_denominator:
  "fmul GAS_CONSTANT_DRY_AIR (fadd T KELVIN_OFFSET) = Finite 0
    \<Longrightarrow> \<exists>e. calculate_air_density_try T P H = Inl e"
  by (simp add: calculate_air_density_try_def Let_def fdiv_def split: sum.split)

lemma cloud_base_raise:
  "calculate_cloud_base_height_try T D = Inl e \<Longrightarrow> calculate_cloud_base_height T D = 0"
  by (simp add: calculate_cloud_base_height_def)

lemma cloud_base_not_finite:
  "fmul (Finite 125) (fsub T D) \<in> {PosInf, NegInf, NaN} \<Longrightarrow> calculate_cloud_base_height T D = 0"
  by (auto simp: calculate_cloud_base_height_def calculate_cloud_base_height_try_def Let_def
      int_of_float_def)

lemma cloud_base_finite:
  "fmul (Finite 125) (fsub T D) = Finite x
    \<Longrightarrow> calculate_cloud_base_height T D = (if 0 \<le> x then \<lfloor>x\<rfloor> else \<lceil>x\<rceil>)"
  by (simp add: calculate_cloud_base_height_def calculate_cloud_base_height_try_def Let_def
      int_of_float_def)

text \<open>
  Claim C8, as the code has it. The derivation functions return a value on every
  input: whatever the \<open>try\<close> block raises, the handler's constant is returned, and
  what the block returns is returned as it is. The dewpoint is 0 when the humidity is
  not positive and when a denominator of the Magnus formula is zero (\<open>243.5 + T\<close> or
  \<open>17.67 - \<alpha>\<close>). The air density is the double \<open>1.225\<close> when a denominator is zero
  (\<open>T + 243.5\<close> or the gas constant times the temperature in kelvin) and when
  \<open>math.exp\<close> overflows. The cloud base height is 0 when the float height is an
  infinity or a NaN, and the truncated height otherwise.
\<close>

theorem derivation_total_with_fallbacks:
  "(calculate_dewpoint_try T H = Inl e \<longrightarrow> calculate_dewpoint T H = Finite 0)
   \<and> (calculate_dewpoint_try T H = Inr v \<longrightarrow> calculate_dewpoint T H = v)
   \<and> (h \<le> 0 \<longrightarrow> calculate_dewpoint T (Finite h) = Finite 0)
   \<and> (fadd VAPOR_PRESSURE_TEMP_BASE T = Finite 0 \<longrightarrow> calculate_dewpoint T H = Finite 0)
   \<and> (fdiv (fmul VAPOR_PRESSURE_COEFF T) (fadd VAPOR_PRESSURE_TEMP_BASE T) = Inr q
        \<and> math_log (fquot H (Finite 100)) = Inr l
        \<and> fsub VAPOR_PRESSURE_COEFF (fadd q l) = Finite 0 \<longrightarrow>
        calculate_dewpoint T H = Finite 0)
   \<and> (calculate_air_density_try T P H = Inl e \<longrightarrow> calculate_air_density T P H = fl 1.225)
   \<and> (calculate_air_density_try T P H = Inr v \<longrightarrow> calculate_air_density T P H = v)
   \<and> (fadd T VAPOR_PRESSURE_TEMP_BASE = Finite 0 \<longrightarrow> calculate_air_density T P H = fl 1.225)
   \<and> (fdiv (fmul VAPOR_PRESSURE_COEFF T) (fadd T VAPOR_PRESSURE_TEMP_BASE) = Inr q
        \<and> math_exp q = Inl e \<longrightarrow>
        calculate_air_density T P H = fl 1.225)
   \<and> (fmul GAS_CONSTANT_DRY_AIR (fadd T KELVIN_OFFSET) = Finite 0 \<longrightarrow>
        calculate_air_density T P H = fl 1.225)
   \<and> (calculate_cloud_base_height_try T D = Inl e \<longrightarrow> calculate_cloud_base_height T D = 0)
   \<and> (fmul (Finite 125) (fsub T D) \<in> {PosInf, NegInf, NaN} \<longrightarrow>
        calculate_cloud_base_height T D = 0)
   \<and> (fmul (Finite 125) (fsub T D) = Finite x \<longrightarrow>
        calculate_cloud_base_height T D = (if 0 \<le> x then \<lfloor>x\<rfloor> else \<lceil>x\<rceil>))"
proof (intro conjI impI)
  show "calculate_dewpoint T H = Finite 0" if "calculate_dewpoint_try T H = Inl e"
    using that by (rule dewpoint_raise)
  show "calculate_dewpoint T H = v" if "calculate_dewpoint_try T H = Inr v"
    using that by (simp add: calculate_dewpoint_def)
  show "calculate_dewpoint T (Finite h) = Finite 0" if "h \<le> 0"
    using dewpoint_humidity[OF that, of T] dewpoint_raise by blast
  show "calculate_dewpoint T H = Finite 0" if "fadd VAPOR_PRESSURE_TEMP_BASE T = Finite 0"
    using dewpoint_first_denominator[OF that, of H] dewpoint_raise by blast
  show "calculate_dewpoint T H = Finite 0"
    if "fdiv (fmul VAPOR_PRESSURE_COEFF T) (fadd VAPOR_PRESSURE_TEMP_BASE T) = Inr q
        \<and> math_log (fquot H (Finite 100)) = Inr l
        \<and> fsub VAPOR_PRESSURE_COEFF (fadd q l) = Finite 0"
    using dewpoint_second_denominator[of T q H l] that dewpoint_raise by blast
  show "calculate_air_density T P H = fl 1.225" if "calculate_air_density_try T P H = Inl e"
    using that by (rule density_raise)
  show "calculate_air_density T P H = v" if "calculate_air_density_try T P H = Inr v"
    using that by (simp add: calculate_air_density_def)
  show "calculate_air_density T P H = fl 1.225" if "fadd T VAPOR_PRESSURE_TEMP_BASE = Finite 0"
    using density_first_denominator[OF that, of P H] density_raise by blast
  show "calculate_air_density T P H = fl 1.225"
    if "fdiv (fmul VAPOR_PRESSURE_COEFF T) (fadd T VAPOR_PRESSURE_TEMP_BASE) = Inr q
        \<and> math_exp q = Inl e"
    using density_exp[of T q e P H] that density_raise by blast
  show "calculate_air_density T P H = fl 1.225"
    if "fmul GAS_CONSTANT_DRY_AIR (fadd T KELVIN_OFFSET) = Finite 0"
    using density_second_denominator[OF that, of P H] density_raise by blast
  show "calculate_cloud_base_height T D = 0" if "calculate_cloud_base_height_try T D = Inl e"
    using that by (rule cloud_base_raise)
  show "calculate_cloud_base_height T D = 0"
    if "fmul (Finite 125) (fsub T D) \<in> {PosInf, NegInf, NaN}"
    using that by (rule cloud_base_not_finite)
  show "calculate_cloud_base_height T D = (if 0 \<le> x then \<lfloor>x\<rfloor> else \<lceil>x\<rceil>)"
    if "fmul (Finite 125) (fsub T D) = Finite x"
    using that by (rule cloud_base_finite)
qed

lemma truncations:
  "(if 0 \<le> (8840073487319039 / 2 ^ 43 :: real) then \<lfloor>8840073487319039 / 2 ^ 43 :: real\<rfloor>
    else \<lceil>8840073487319039 / 2 ^ 43 :: real\<rceil>) = 1004"
  "(if 0 \<le> (- (8840073487319039 / 2 ^ 43) :: real) then \<lfloor>- (8840073487319039 / 2 ^ 43) :: real\<rfloor>
    else \<lceil>- (8840073487319039 / 2 ^ 43) :: real\<rceil>) = - 1004"
  by simp_all

theorem derivation_total_with_fallbacks_witness:
  "calculate_dewpoint_try (Finite 20) (Finite 0) = Inl ValueError
   \<and> calculate_dewpoint (Finite 20) (Finite 0) = Finite 0
   \<and> calculate_dewpoint_try (Finite 20) (Finite 100) = Inr (Finite 20)
   \<and> calculate_dewpoint (Finite 20) (Finite 100) = Finite 20
   \<and> (- 5 :: real) \<le> 0
   \<and> calculate_dewpoint (Finite 20) (Finite (- 5)) = Finite 0
   \<and> fadd VAPOR_PRESSURE_TEMP_BASE (Finite (- 243.5)) = Finite 0
   \<and> calculate_dewpoint (Finite (- 243.5)) (Finite 50) = Finite 0
   \<and> fdiv (fmul VAPOR_PRESSURE_COEFF (Finite (2 ^ 600)))
        (fadd VAPOR_PRESSURE_TEMP_BASE (Finite (2 ^ 600))) = Inr VAPOR_PRESSURE_COEFF
   \<and> math_log (fquot (Finite 100) (Finite 100)) = Inr (Finite 0)
   \<and> fsub VAPOR_PRESSURE_COEFF (fadd VAPOR_PRESSURE_COEFF (Finite 0)) = Finite 0
   \<and> calculate_dewpoint (Finite (2 ^ 600)) (Finite 100) = Finite 0
   \<and> calculate_air_density_try (Finite (- 243.5)) (Finite 1013) (Finite 50) = Inl ZeroDivisionError
   \<and> calculate_air_density (Finite (- 243.5)) (Finite 1013) (Finite 50) = fl 1.225
   \<and> calculate_air_density_try (Finite 0) (fl 1013.25) (Finite 50) = Inr (fl 1.2884)
   \<and> calculate_air_density (Finite 0) (fl 1013.25) (Finite 50) = fl 1.2884
   \<and> fdiv (fmul VAPOR_PRESSURE_COEFF (Finite (- 244))) (fadd (Finite (- 244)) VAPOR_PRESSURE_TEMP_BASE)
       = Inr (Finite (4740522392923669 / 2 ^ 39))
   \<and> math_exp (Finite (4740522392923669 / 2 ^ 39)) = Inl OverflowError
   \<and> calculate_air_density (Finite (- 244)) (Finite 1013) (Finite 50) = fl 1.225
   \<and> fmul GAS_CONSTANT_DRY_AIR (fadd (fneg KELVIN_OFFSET) KELVIN_OFFSET) = Finite 0
   \<and> calculate_air_density (fneg KELVIN_OFFSET) (Finite 1013) (Finite 50) = fl 1.225
   \<and> calculate_cloud_base_height_try (Finite FLOAT_MAX) (Finite (- FLOAT_MAX)) = Inl OverflowError
   \<and> fmul (Finite 125) (fsub (Finite FLOAT_MAX) (Finite (- FLOAT_MAX))) \<in> {PosInf, NegInf, NaN}
   \<and> calculate_cloud_base_height (Finite FLOAT_MAX) (Finite (- FLOAT_MAX)) = 0
   \<and> fmul (Finite 125) (fsub (Finite 10.5) (fl 2.46)) = Finite (8840073487319039 / 2 ^ 43)
   \<and> calculate_cloud_base_height (Finite 10.5) (fl 2.46) = 1004
   \<and> calculate_cloud_base_height (fl 2.46) (Finite 10.5) = - 1004"
proof -
  note t = derivation_total_with_fallbacks
  have neg: "(- 5 :: real) \<le> 0" by simp
  have lg: "math_log (fquot (Finite 100) (Finite 100)) = Inr (Finite 0)"
    by (simp only: humidity_examples math_log_1)
  have a1: "calculate_air_density_try (Finite (- 243.5)) (Finite 1013) (Finite 50) = Inl ZeroDivisionError"
    by (simp only: calculate_air_density_try_def Let_def fdiv_def zero_denominators simp_thms
        if_True sum.case)
  have c1: "calculate_cloud_base_height_try (Finite FLOAT_MAX) (Finite (- FLOAT_MAX)) = Inl OverflowError"
    by (simp only: calculate_cloud_base_height_try_def Let_def cloud_examples int_of_float_def
        pyfloat.case)
  have c2: "fmul (Finite 125) (fsub (Finite FLOAT_MAX) (Finite (- FLOAT_MAX))) \<in> {PosInf, NegInf, NaN}"
    by (simp add: cloud_examples)
  have d1: "calculate_dewpoint (Finite 20) (Finite 0) = Finite 0"
    using t[of "Finite 20" "Finite 0" ValueError, THEN conjunct1] dewpoint_20_0 by (rule mp)
  have d2: "calculate_dewpoint (Finite 20) (Finite 100) = Finite 20"
    using t[of "Finite 20" "Finite 100" _ "Finite 20", THEN conjunct2, THEN conjunct1]
      dewpoint_20_100 by (rule mp)
  have d3: "calculate_dewpoint (Finite 20) (Finite (- 5)) = Finite 0"
    using t[of "Finite 20" _ _ _ "- 5", THEN conjunct2, THEN conjunct2, THEN conjunct1] neg
    by (rule mp)
  have d4: "calculate_dewpoint (Finite (- 243.5)) (Finite 50) = Finite 0"
    using t[of "Finite (- 243.5)" "Finite 50", THEN conjunct2, THEN conjunct2, THEN conjunct2,
        THEN conjunct1] zero_denominators(1) by (rule mp)
  have d5: "calculate_dewpoint (Finite (2 ^ 600)) (Finite 100) = Finite 0"
    using t[of "Finite (2 ^ 600)" "Finite 100" _ _ _ VAPOR_PRESSURE_COEFF "Finite 0",
        THEN conjunct2, THEN conjunct2, THEN conjunct2, THEN conjunct2, THEN conjunct1]
      dewpoint_zero_denominator lg by simp
  note u = t[THEN conjunct2, THEN conjunct2, THEN conjunct2, THEN conjunct2, THEN conjunct2]
  have e1: "calculate_air_density (Finite (- 243.5)) (Finite 1013) (Finite 50) = fl 1.225"
    using u[of "Finite (- 243.5)" "Finite 1013" "Finite 50" ZeroDivisionError, THEN conjunct1] a1
    by (rule mp)
  have e2: "calculate_air_density (Finite 0) (fl 1013.25) (Finite 50) = fl 1.2884"
    using u[of "Finite 0" "fl 1013.25" "Finite 50" _ "fl 1.2884", THEN conjunct2, THEN conjunct1]
      density_0_1013_50 by (rule mp)
  have e3: "calculate_air_density (Finite (- 244)) (Finite 1013) (Finite 50) = fl 1.225"
    using u[of "Finite (- 244)" "Finite 1013" "Finite 50" OverflowError _
        "Finite (4740522392923669 / 2 ^ 39)",
        THEN conjunct2, THEN conjunct2, THEN conjunct2, THEN conjunct1]
      density_exp_overflow by simp
  have e4: "calculate_air_density (fneg KELVIN_OFFSET) (Finite 1013) (Finite 50) = fl 1.225"
    using u[of "fneg KELVIN_OFFSET" "Finite 1013" "Finite 50",
        THEN conjunct2, THEN conjunct2, THEN conjunct2, THEN conjunct2, THEN conjunct1]
      zero_denominators(3) by (rule mp)
  note w = u[THEN conjunct2, THEN conjunct2, THEN conjunct2, THEN conjunct2, THEN conjunct2]
  have f1: "calculate_cloud_base_height (Finite FLOAT_MAX) (Finite (- FLOAT_MAX)) = 0"
    using w[of "Finite FLOAT_MAX" "Finite (- FLOAT_MAX)", THEN conjunct2, THEN conjunct1] c2
    by (rule mp)
  have f0: "calculate_cloud_base_height (Finite FLOAT_MAX) (Finite (- FLOAT_MAX)) = 0"
    using w[of "Finite FLOAT_MAX" "Finite (- FLOAT_MAX)" OverflowError, THEN conjunct1] c1
    by (rule mp)
  have f2: "calculate_cloud_base_height (Finite 10.5) (fl 2.46) = 1004"
    using w[of "Finite 10.5" "fl 2.46" _ "8840073487319039 / 2 ^ 43", THEN conjunct2, THEN conjunct2]
      cloud_examples(2) by (simp only: truncations)
  have f3: "calculate_cloud_base_height (fl 2.46) (Finite 10.5) = - 1004"
    using w[of "fl 2.46" "Finite 10.5" _ "- (8840073487319039 / 2 ^ 43)", THEN conjunct2, THEN conjunct2]
      cloud_examples(3) by (simp only: truncations)
  show ?thesis
    by (intro conjI dewpoint_20_0 d1 dewpoint_20_100 d2 neg d3 zero_denominators(1) d4
        dewpoint_zero_denominator lg d5 a1 e1 density_0_1013_50 e2 density_exp_overflow e3
        zero_denominators(3) e4 c1 c2 f1 cloud_examples(2) f2 f3)
qed

text \<open>
  Claim C8 as stated fails on an input that overflows without an exception. A float
  multiplication beyond the largest double gives an infinity and raises nothing, so
  the handler is not entered: for a pressure of \<open>2 ^ 1022\<close> hPa, a finite double, the
  air density is an infinity and not 1.225; for a temperature of \<open>2 ^ 1022\<close> degrees
  the dewpoint is a NaN.
\<close>

theorem derivation_overflow_without_fallback:
  "2 ^ 1022 \<le> FLOAT_MAX
   \<and> calculate_air_density (Finite 0) (Finite (2 ^ 1022)) (Finite 0) = PosInf
   \<and> PosInf \<noteq> fl 1.225
   \<and> calculate_dewpoint (Finite (2 ^ 1022)) (Finite 100) = NaN
   \<and> NaN \<noteq> Finite 0"
proof -
  have "2 ^ 1022 \<le> FLOAT_MAX" by (simp add: FLOAT_MAX_def)
  moreover have "calculate_air_density (Finite 0) (Finite (2 ^ 1022)) (Finite 0) = PosInf"
    by (simp only: calculate_air_density_def density_overflow sum.case)
  moreover have "PosInf \<noteq> fl 1.225"
    by (simp only: double_constants) simp
  moreover have "calculate_dewpoint (Finite (2 ^ 1022)) (Finite 100) = NaN"
    by (simp only: calculate_dewpoint_def dewpoint_overflow sum.case)
  ultimately show ?thesis by simp
qed

section \<open>Settings persistence\<close>

declare str_nat.simps [simp del]

lemma is_digit_digit_char: "d < 10 \<Longrightarrow> is_digit (digit_char d)"
  by (simp add: is_digit_def digit_char_def)

lemma digit_value_digit_char: "d < 10 \<Longrightarrow> digit_value (digit_char d) = int d"
  by (simp add: digit_value_def digit_char_def)

lemma digits_value_str_nat:
  "\<exists>m. digits_value acc b (str_nat n @ rest) = digits_value (acc * 10 ^ m + int n) True rest"
proof (induction n arbitrary: acc b rest rule: str_nat.induct)
  case (1 n)
  show ?case
  proof (cases "n < 10")
    case True
    then have "digits_value acc b (str_nat n @ rest) = digits_value (acc * 10 ^ 1 + int n) True rest"
      by (simp add: str_nat.simps[of n] is_digit_digit_char digit_value_digit_char)
    then show ?thesis by blast
  next
    case False
    from "1.IH"[OF False, of acc b "digit_char (n mod 10) # rest"]
    obtain m where m: "digits_value acc b (str_nat (n div 10) @ digit_char (n mod 10) # rest) =
        digits_value (acc * 10 ^ m + int (n div 10)) True (digit_char (n mod 10) # rest)" by blast
    have "digits_value acc b (str_nat n @ rest) = digits_value (acc * 10 ^ (Suc m) + int n) True rest"
      using False m
      by (simp add: str_nat.simps[of n] is_digit_digit_char digit_value_digit_char algebra_simps zdiv_int zmod_int)
    then show ?thesis by blast
  qed
qed

lemma digits_value_str_nat0: "digits_value 0 False (str_nat n) = Some (int n)"
  using digits_value_str_nat[of 0 False n "[]"] by auto


lemma not_space_digit_char: "d < 10 \<Longrightarrow> \<not> is_space (digit_char d)"
  by (simp add: is_space_def digit_char_def)

lemma str_nat_not_Nil: "str_nat n \<noteq> []"
  by (simp add: str_nat.simps[of n])

lemma str_nat_last: "\<not> is_space (last (str_nat n))"
  by (simp add: str_nat.simps[of n] not_space_digit_char)

lemma str_nat_hd: "\<not> is_space (hd (str_nat n))"
proof (induction n rule: str_nat.induct)
  case (1 n)
  show ?case
  proof (cases "n < 10")
    case True
    then show ?thesis by (simp add: str_nat.simps[of n] not_space_digit_char)
  next
    case False
    with "1.IH" show ?thesis by (simp add: str_nat.simps[of n] str_nat_not_Nil)
  qed
qed

lemma dropWhile_hd: "s \<noteq> [] \<Longrightarrow> \<not> P (hd s) \<Longrightarrow> dropWhile P s = s"
  by (cases s) simp_all

lemma strip_id:
  assumes "s \<noteq> []" and "\<not> is_space (hd s)" and "\<not> is_space (last s)"
  shows "strip s = s"
proof -
  have 1: "dropWhile is_space s = s" using assms(1,2) by (rule dropWhile_hd)
  have "rev s \<noteq> []" using assms(1) by simp
  moreover have "\<not> is_space (hd (rev s))" using assms(1,3) by (simp add: hd_rev)
  ultimately have "dropWhile is_space (rev s) = rev s" by (rule dropWhile_hd)
  with 1 show ?thesis by (simp add: strip_def)
qed

lemma str_nat_hd_digit: "is_digit (hd (str_nat n))"
proof (induction n rule: str_nat.induct)
  case (1 n)
  show ?case
  proof (cases "n < 10")
    case True
    then show ?thesis by (simp add: str_nat.simps[of n] is_digit_digit_char)
  next
    case False
    with "1.IH" show ?thesis by (simp add: str_nat.simps[of n] str_nat_not_Nil)
  qed
qed

lemma int_of_str_str_int: "int_of_str (str_int k) = Some k"
proof (cases "k < 0")
  case True
  let ?s = "CHR ''-'' # str_nat (nat (- k))"
  have "\<not> is_space (hd ?s)" by (simp add: is_space_def)
  moreover have "\<not> is_space (last ?s)" by (simp add: str_nat_last str_nat_not_Nil)
  ultimately have "strip ?s = ?s" by (intro strip_id) simp_all
  with True show ?thesis
    by (simp add: int_of_str_def str_int_def digits_value_str_nat0)
next
  case False
  obtain c cs where s: "str_nat (nat k) = c # cs"
    using str_nat_not_Nil[of "nat k"] by (cases "str_nat (nat k)") auto
  have d: "is_digit c" using str_nat_hd_digit[of "nat k"] s by simp
  have c: "c \<noteq> CHR ''-''" "c \<noteq> CHR ''+''" using d by (auto simp: is_digit_def)
  have "strip (str_nat (nat k)) = str_nat (nat k)"
    by (intro strip_id str_nat_last str_nat_hd str_nat_not_Nil)
  with False s c digits_value_str_nat0[of "nat k"] show ?thesis
    by (simp add: int_of_str_def str_int_def)
qed

lemma str_int_inj:
  assumes "str_int j = str_int k"
  shows "j = k"
proof -
  from assms have "int_of_str (str_int j) = int_of_str (str_int k)" by (rule arg_cong)
  then show ?thesis by (simp only: int_of_str_str_int option.inject)
qed

lemma update_fresh: "k \<notin> fst ` set d \<Longrightarrow> AList.update k v d = d @ [(k, v)]"
  by (induction d) auto

lemma foldl_update_distinct:
  "distinct (map fst (d @ ps)) \<Longrightarrow> foldl (\<lambda>d (k, v). AList.update k v d) d ps = d @ ps"
proof (induction ps arbitrary: d)
  case Nil
  then show ?case by simp
next
  case (Cons p ps)
  obtain k v where p: "p = (k, v)" by (cases p)
  from Cons.prems p have fresh: "k \<notin> fst ` set d" by auto
  from Cons.prems p have "distinct (map fst ((d @ [(k, v)]) @ ps))" by simp
  from Cons.IH[OF this] fresh p show ?case by (simp add: update_fresh)
qed

lemma dict_of_pairs_distinct: "distinct (map fst ps) \<Longrightarrow> dict_of_pairs ps = ps"
  using foldl_update_distinct[of "[]" ps] by (simp add: dict_of_pairs_def)

lemma map_fst_str_keys:
  "map fst (map (\<lambda>(k, v). (str_int k, v)) us) = map str_int (map fst us)"
  by (induction us) auto

lemma distinct_str_keys:
  assumes "distinct (map fst us)"
  shows "distinct (map fst (map (\<lambda>(k, v). (str_int k, v)) us))"
proof -
  have "inj_on str_int (set (map fst us))"
    by (rule inj_onI) (rule str_int_inj)
  with assms have "distinct (map str_int (map fst us))"
    by (simp only: distinct_map simp_thms)
  then show ?thesis by (simp only: map_fst_str_keys)
qed

lemma convert_keys_str: "convert_keys (map (\<lambda>(k, v). (str_int k, v)) us) = Some us"
  by (induction us) (auto simp: int_of_str_str_int)

text \<open>
  Claim C5. For every settings mapping (an association list with distinct integer
  keys), \<open>save_user_settings\<close> writes the records under the decimal strings of their
  keys, and \<open>load_user_settings\<close> on the file written, in the same process or in a new
  one, gives back the mapping: the same integer keys with the same records.
\<close>

theorem settings_round_trip:
  assumes "distinct (map fst (user_settings st))"
  shows "db (save_user_settings st)
           = JsonObject (map (\<lambda>(k, v). (str_int k, v)) (user_settings st))
       \<and> user_settings (load_user_settings (st'\<lparr>db := db (save_user_settings st)\<rparr>))
           = user_settings st
       \<and> user_settings (load_user_settings (save_user_settings st)) = user_settings st"
proof -
  let ?data = "map (\<lambda>(k, v). (str_int k, v)) (user_settings st)"
  have 1: "dict_of_pairs ?data = ?data"
    using assms by (intro dict_of_pairs_distinct distinct_str_keys)
  have 2: "convert_keys ?data = Some (user_settings st)" by (rule convert_keys_str)
  have 3: "dict_of_pairs (user_settings st) = user_settings st"
    using assms by (rule dict_of_pairs_distinct)
  have saved: "db (save_user_settings st) = JsonObject ?data"
    by (simp add: save_user_settings_def 1)
  have "user_settings (load_user_settings (s\<lparr>db := JsonObject ?data\<rparr>)) = user_settings st" for s
    by (simp add: load_user_settings_def 2 3)
  from this[of st'] this[of st] saved show ?thesis
    by (simp add: save_user_settings_def 1)
qed

theorem settings_round_trip_witness:
  "distinct (map fst (user_settings two_users))
   \<and> db (save_user_settings two_users)
       = JsonObject [(''123456789012345678'', station ''Paris'' ''UTC'' ''celsius'' 8),
                     (''42'', station ''Tokyo'' ''Asia/Tokyo'' ''kelvin'' 21)]
   \<and> user_settings (load_user_settings (state0\<lparr>db := db (save_user_settings two_users)\<rparr>))
       = [(123456789012345678, station ''Paris'' ''UTC'' ''celsius'' 8),
          (42, station ''Tokyo'' ''Asia/Tokyo'' ''kelvin'' 21)]"
proof -
  have u: "user_settings two_users
      = [(123456789012345678, station ''Paris'' ''UTC'' ''celsius'' 8),
         (42, station ''Tokyo'' ''Asia/Tokyo'' ''kelvin'' 21)]"
    by (simp add: two_users_def)
  have d: "distinct (map fst (user_settings two_users))"
    by (simp add: u)
  have k: "str_int 123456789012345678 = ''123456789012345678''" "str_int 42 = ''42''"
    by (simp_all add: str_int_def str_nat.simps digit_char_def char_of_def bit_0)
  have data: "map (\<lambda>(k, v). (str_int k, v)) (user_settings two_users)
      = [(''123456789012345678'', station ''Paris'' ''UTC'' ''celsius'' 8),
         (''42'', station ''Tokyo'' ''Asia/Tokyo'' ''kelvin'' 21)]"
    by (simp add: u k)
  note rt = settings_round_trip[OF d, of state0]
  show ?thesis
  proof (intro conjI)
    show "distinct (map fst (user_settings two_users))" by (rule d)
    show "db (save_user_settings two_users)
       = JsonObject [(''123456789012345678'', station ''Paris'' ''UTC'' ''celsius'' 8),
                     (''42'', station ''Tokyo'' ''Asia/Tokyo'' ''kelvin'' 21)]"
      using rt[THEN conjunct1] by (simp only: data)
    show "user_settings (load_user_settings (state0\<lparr>db := db (save_user_settings two_users)\<rparr>))
       = [(123456789012345678, station ''Paris'' ''UTC'' ''celsius'' 8),
          (42, station ''Tokyo'' ''Asia/Tokyo'' ''kelvin'' 21)]"
      using rt[THEN conjunct2, THEN conjunct1] by (simp only: u)
  qed
qed


section \<open>The caches\<close>

lemma get_weather_hit:
  assumes "weather_cache st (lower place) = Some (v, ts)" and "clock w - ts < WEATHER_CACHE_TTL"
  shows "get_weather w place st = (Some v, st, [])"
  using assms by (simp add: get_weather_def)

lemma get_weather_miss:
  assumes "\<not> entry_valid WEATHER_CACHE_TTL (clock w) (weather_cache st (lower place))"
  shows "get_weather w place st =
     (case weather_api w place of
        Some r \<Rightarrow> (Some r, st\<lparr>weather_cache := (weather_cache st)(lower place \<mapsto> (r, clock w))\<rparr>, [place])
      | None \<Rightarrow> (None, st, [place]))"
  using assms
  by (auto simp: get_weather_def entry_valid_def split: option.splits)

lemma entry_stays_invalid:
  assumes "\<not> entry_valid ttl now entry" and "now \<le> now'"
  shows "\<not> entry_valid ttl now' entry"
  using assms by (auto simp: entry_valid_def split: option.splits)

lemma get_nasa_image_hit:
  assumes "nasa_cache st = Some (v, ts)" and "clock w - ts < NASA_CACHE_TTL"
  shows "get_nasa_image w st = (Some v, st, 0)"
  using assms by (simp add: get_nasa_image_def)

lemma get_nasa_image_miss:
  assumes "\<not> entry_valid NASA_CACHE_TTL (clock w) (nasa_cache st)"
  shows "get_nasa_image w st =
     (case nasa_api w of
        Some r \<Rightarrow> (Some r, st\<lparr>nasa_cache := Some (r, clock w)\<rparr>, 1)
      | None \<Rightarrow> (None, st, 1))"
  using assms
  by (auto simp: get_nasa_image_def entry_valid_def split: option.splits)

text \<open>
  Claim C1. The weather cache is keyed by the lower-cased place name and its entries
  live 5 minutes; the image cache is a single entry that lives 12 hours. For both: a
  lookup that finds an entry younger than the time to live returns the cached value
  and makes no request. Otherwise it makes one request; on success it stores the
  value with the current clock reading, over any entry that was there, and returns
  it; on failure it returns \<open>None\<close> and leaves the state as it was, so that a retry at
  the same or any later clock reading makes a request again.
\<close>

theorem cache_aside_contract:
  "WEATHER_CACHE_TTL = 5 * 60 * 1000000 \<and> NASA_CACHE_TTL = 12 * 60 * 60 * 1000000
   \<and> (weather_cache st (lower place) = Some (v, ts) \<and> clock w - ts < WEATHER_CACHE_TTL \<longrightarrow>
        get_weather w place st = (Some v, st, []))
   \<and> (\<not> entry_valid WEATHER_CACHE_TTL (clock w) (weather_cache st (lower place))
        \<and> weather_api w place = Some r \<longrightarrow>
        get_weather w place st
          = (Some r, st\<lparr>weather_cache := (weather_cache st)(lower place \<mapsto> (r, clock w))\<rparr>, [place]))
   \<and> (\<not> entry_valid WEATHER_CACHE_TTL (clock w) (weather_cache st (lower place))
        \<and> weather_api w place = None \<longrightarrow>
        get_weather w place st = (None, st, [place])
        \<and> (\<forall>w'. clock w \<le> clock w' \<longrightarrow> snd (snd (get_weather w' place st)) = [place]))
   \<and> (nasa_cache st = Some (i, ts) \<and> clock w - ts < NASA_CACHE_TTL \<longrightarrow>
        get_nasa_image w st = (Some i, st, 0))
   \<and> (\<not> entry_valid NASA_CACHE_TTL (clock w) (nasa_cache st) \<and> nasa_api w = Some j \<longrightarrow>
        get_nasa_image w st = (Some j, st\<lparr>nasa_cache := Some (j, clock w)\<rparr>, 1))
   \<and> (\<not> entry_valid NASA_CACHE_TTL (clock w) (nasa_cache st) \<and> nasa_api w = None \<longrightarrow>
        get_nasa_image w st = (None, st, 1)
        \<and> (\<forall>w'. clock w \<le> clock w' \<longrightarrow> snd (snd (get_nasa_image w' st)) = 1))"
proof (intro conjI impI allI; (elim conjE)?)
  show "WEATHER_CACHE_TTL = 5 * 60 * 1000000" by (simp add: WEATHER_CACHE_TTL_def)
  show "NASA_CACHE_TTL = 12 * 60 * 60 * 1000000" by (simp add: NASA_CACHE_TTL_def)
next
  assume "weather_cache st (lower place) = Some (v, ts)" "clock w - ts < WEATHER_CACHE_TTL"
  then show "get_weather w place st = (Some v, st, [])" by (rule get_weather_hit)
next
  assume "\<not> entry_valid WEATHER_CACHE_TTL (clock w) (weather_cache st (lower place))"
    "weather_api w place = Some r"
  then show "get_weather w place st
      = (Some r, st\<lparr>weather_cache := (weather_cache st)(lower place \<mapsto> (r, clock w))\<rparr>, [place])"
    by (simp add: get_weather_miss)
next
  assume "\<not> entry_valid WEATHER_CACHE_TTL (clock w) (weather_cache st (lower place))"
    "weather_api w place = None"
  then show "get_weather w place st = (None, st, [place])"
    by (simp add: get_weather_miss)
next
  fix w' :: world
  assume "\<not> entry_valid WEATHER_CACHE_TTL (clock w) (weather_cache st (lower place))"
    "clock w \<le> clock w'"
  then have "\<not> entry_valid WEATHER_CACHE_TTL (clock w') (weather_cache st (lower place))"
    by (rule entry_stays_invalid)
  then show "snd (snd (get_weather w' place st)) = [place]"
    by (simp add: get_weather_miss split: option.splits)
next
  assume "nasa_cache st = Some (i, ts)" "clock w - ts < NASA_CACHE_TTL"
  then show "get_nasa_image w st = (Some i, st, 0)" by (rule get_nasa_image_hit)
next
  assume "\<not> entry_valid NASA_CACHE_TTL (clock w) (nasa_cache st)" "nasa_api w = Some j"
  then show "get_nasa_image w st = (Some j, st\<lparr>nasa_cache := Some (j, clock w)\<rparr>, 1)"
    by (simp add: get_nasa_image_miss)
next
  assume "\<not> entry_valid NASA_CACHE_TTL (clock w) (nasa_cache st)" "nasa_api w = None"
  then show "get_nasa_image w st = (None, st, 1)"
    by (simp add: get_nasa_image_miss)
next
  fix w' :: world
  assume "\<not> entry_valid NASA_CACHE_TTL (clock w) (nasa_cache st)" "clock w \<le> clock w'"
  then have "\<not> entry_valid NASA_CACHE_TTL (clock w') (nasa_cache st)"
    by (rule entry_stays_invalid)
  then show "snd (snd (get_nasa_image w' st)) = 1"
    by (simp add: get_nasa_image_miss split: option.splits)
qed


lemma lower_examples:
  "lower ''Paris'' = ''paris''" "lower ''PARIS'' = ''paris''" "lower ''Atlantis'' = ''atlantis''"
  by (simp_all add: lower_def lower_char_def char_of_def bit_0)

theorem cache_aside_contract_witness:
  "get_weather world0 ''Paris'' state0
     = (Some paris, state0\<lparr>weather_cache := [''paris'' \<mapsto> (paris, 0)]\<rparr>, [''Paris''])
   \<and> get_weather (world0\<lparr>clock := 299999999\<rparr>) ''PARIS'' paris_cached
     = (Some paris, paris_cached, [])
   \<and> get_weather (world0\<lparr>clock := 300000000\<rparr>) ''PARIS'' paris_cached
     = (Some paris,
        paris_cached\<lparr>weather_cache := [''paris'' \<mapsto> (paris, 300000000)]\<rparr>, [''PARIS''])
   \<and> get_weather world0 ''Atlantis'' state0 = (None, state0, [''Atlantis''])
   \<and> snd (snd (get_weather (world0\<lparr>clock := 1\<rparr>) ''Atlantis'' state0)) = [''Atlantis'']
   \<and> get_weather (world0\<lparr>clock := 300000000, weather_api := \<lambda>place. None\<rparr>) ''Paris'' paris_cached
     = (None, paris_cached, [''Paris''])
   \<and> get_nasa_image world0 state0 = (Some apod, state0\<lparr>nasa_cache := Some (apod, 0)\<rparr>, 1)
   \<and> get_nasa_image (world0\<lparr>clock := 43199999999\<rparr>) paris_cached = (Some apod, paris_cached, 0)
   \<and> get_nasa_image (world0\<lparr>clock := 43200000000\<rparr>) paris_cached
     = (Some apod, paris_cached\<lparr>nasa_cache := Some (apod, 43200000000)\<rparr>, 1)
   \<and> get_nasa_image (world0\<lparr>clock := 43200000000, nasa_api := None\<rparr>) paris_cached
     = (None, paris_cached, 1)
   \<and> snd (snd (get_nasa_image (world0\<lparr>clock := 43200000001, nasa_api := None\<rparr>) paris_cached)) = 1"
proof -
  note defs = world0_def state0_def paris_cached_def entry_valid_def lower_examples
    WEATHER_CACHE_TTL_def NASA_CACHE_TTL_def
  have w1: "get_weather world0 ''Paris'' state0
     = (Some paris, state0\<lparr>weather_cache := [''paris'' \<mapsto> (paris, 0)]\<rparr>, [''Paris''])"
    using cache_aside_contract[where w=world0 and st=state0 and place="''Paris''" and r=paris]
    by (simp add: defs)
  have w2: "get_weather (world0\<lparr>clock := 299999999\<rparr>) ''PARIS'' paris_cached
     = (Some paris, paris_cached, [])"
    using cache_aside_contract[where w="world0\<lparr>clock := 299999999\<rparr>" and st=paris_cached
        and place="''PARIS''" and v=paris and ts=0]
    by (simp add: defs)
  have w3: "get_weather (world0\<lparr>clock := 300000000\<rparr>) ''PARIS'' paris_cached
     = (Some paris,
        paris_cached\<lparr>weather_cache := [''paris'' \<mapsto> (paris, 300000000)]\<rparr>, [''PARIS''])"
    using cache_aside_contract[where w="world0\<lparr>clock := 300000000\<rparr>" and st=paris_cached
        and place="''PARIS''" and r=paris]
    by (simp add: defs)
  have w4: "get_weather world0 ''Atlantis'' state0 = (None, state0, [''Atlantis''])
      \<and> snd (snd (get_weather (world0\<lparr>clock := 1\<rparr>) ''Atlantis'' state0)) = [''Atlantis'']"
    using cache_aside_contract[where w=world0 and st=state0 and place="''Atlantis''"]
    by (simp add: defs)
  have w5: "get_weather (world0\<lparr>clock := 300000000, weather_api := \<lambda>place. None\<rparr>) ''Paris'' paris_cached
     = (None, paris_cached, [''Paris''])"
    using cache_aside_contract[where w="world0\<lparr>clock := 300000000, weather_api := \<lambda>place. None\<rparr>"
        and st=paris_cached and place="''Paris''"]
    by (simp add: defs)
  have n1: "get_nasa_image world0 state0 = (Some apod, state0\<lparr>nasa_cache := Some (apod, 0)\<rparr>, 1)"
    using cache_aside_contract[where w=world0 and st=state0 and j=apod]
    by (simp add: defs)
  have n2: "get_nasa_image (world0\<lparr>clock := 43199999999\<rparr>) paris_cached = (Some apod, paris_cached, 0)"
    using cache_aside_contract[where w="world0\<lparr>clock := 43199999999\<rparr>" and st=paris_cached
        and i=apod and ts=0]
    by (simp add: defs)
  have n3: "get_nasa_image (world0\<lparr>clock := 43200000000\<rparr>) paris_cached
     = (Some apod, paris_cached\<lparr>nasa_cache := Some (apod, 43200000000)\<rparr>, 1)"
    using cache_aside_contract[where w="world0\<lparr>clock := 43200000000\<rparr>" and st=paris_cached
        and j=apod]
    by (simp add: defs)
  have n4: "get_nasa_image (world0\<lparr>clock := 43200000000, nasa_api := None\<rparr>) paris_cached
     = (None, paris_cached, 1)
     \<and> snd (snd (get_nasa_image (world0\<lparr>clock := 43200000001, nasa_api := None\<rparr>) paris_cached)) = 1"
    using cache_aside_contract[where w="world0\<lparr>clock := 43200000000, nasa_api := None\<rparr>"
        and st=paris_cached]
    by (simp add: defs)
  from w1 w2 w3 w4 w5 n1 n2 n3 n4 show ?thesis by (intro conjI) (simp_all only:)
qed

section \<open>The settings command\<close>

lemma registered_eq:
  "registered = \<lparr>user_settings = [(7, station ''Paris'' ''UTC'' ''celsius'' 8)],
                 weather_cache = Map.empty, nasa_cache = None,
                 db = JsonObject [(''7'', station ''Paris'' ''UTC'' ''celsius'' 8)]\<rparr>"
  by (simp add: registered_def state0_def save_user_settings_def dict_of_pairs_def
      str_int_def str_nat.simps digit_char_def char_of_def bit_0)

text \<open>
  Claim C3, on the code. User 7 is registered with Celsius and hour 8. A call with the
  unit Fahrenheit and the hour 24 is answered with the error for the hour, and the
  file keeps the Celsius record, but the record in memory now says Fahrenheit: the
  unit was assigned before the hour was checked.
\<close>

theorem settings_invalid_hour_keeps_unit_change:
  "settings 7 (Some (''Fahrenheit'', ''fahrenheit'')) (Some 24) registered
     = (HourOutOfRange,
        \<lparr>user_settings = [(7, station ''Paris'' ''UTC'' ''fahrenheit'' 8)],
         weather_cache = Map.empty, nasa_cache = None,
         db = JsonObject [(''7'', station ''Paris'' ''UTC'' ''celsius'' 8)]\<rparr>)
   \<and> map_of (user_settings registered) 7 = Some (station ''Paris'' ''UTC'' ''celsius'' 8)"
  by (simp add: registered_eq settings_def assign_def station_def)

lemma settings_invalid_hour_only:
  assumes "\<not> (0 \<le> h \<and> h \<le> 23)"
  shows "snd (settings user_id None (Some h) st) = st"
  using assms by (simp add: settings_def)

lemma settings_invalid_hour_no_save:
  assumes "\<not> (0 \<le> h \<and> h \<le> 23)"
  shows "db (snd (settings user_id choice (Some h) st)) = db st"
  using assms by (cases choice) (auto simp: settings_def assign_def)

section \<open>Registration\<close>

lemma get_weather_user_settings:
  "get_weather w place st = (res, st1, reqs) \<Longrightarrow> user_settings st1 = user_settings st"
  by (auto simp: get_weather_def Let_def split: option.splits if_splits prod.splits)

lemma get_weather_db:
  "get_weather w place st = (res, st1, reqs) \<Longrightarrow> db st1 = db st"
  by (auto simp: get_weather_def Let_def split: option.splits if_splits prod.splits)

lemma setlocation_success:
  assumes "strip place \<noteq> []" and "length (strip place) \<le> 100"
    and "get_weather w (strip place) st = (Some r, st1, reqs)"
  shows "setlocation w user_id place st =
     (StationConfigured,
      save_user_settings
        (st1\<lparr>user_settings :=
           AList.update user_id
             \<lparr>city = city_name r, country = w_country r, lat = w_lat r, lon = w_lon r,
              tz = get_timezone_from_coords w (w_lat r) (w_lon r),
              temp_unit = ''celsius'', report_hour = 8\<rparr>
             (user_settings st1)\<rparr>))"
  using assms by (simp add: setlocation_def Let_def)

text \<open>
  Claim C10. When a user who already has a settings record registers a location and
  the weather lookup succeeds, the record is replaced by a new one built from the
  observation: whatever the old record said, the unit is \<open>celsius\<close> and the report
  hour is 8. The other users keep their records, and the file written holds the new
  mapping.
\<close>

theorem setlocation_resets_preferences:
  assumes "map_of (user_settings st) user_id = Some old"
    and "strip place \<noteq> []" and "length (strip place) \<le> 100"
    and "get_weather w (strip place) st = (Some r, st1, reqs)"
  shows "fst (setlocation w user_id place st) = StationConfigured
       \<and> map_of (user_settings (snd (setlocation w user_id place st))) user_id
           = Some \<lparr>city = city_name r, country = w_country r, lat = w_lat r, lon = w_lon r,
                   tz = get_timezone_from_coords w (w_lat r) (w_lon r),
                   temp_unit = ''celsius'', report_hour = 8\<rparr>
       \<and> map fst (user_settings (snd (setlocation w user_id place st)))
           = map fst (user_settings st)
       \<and> (\<forall>u. u \<noteq> user_id \<longrightarrow>
             map_of (user_settings (snd (setlocation w user_id place st))) u
               = map_of (user_settings st) u)
       \<and> db (snd (setlocation w user_id place st))
           = JsonObject (dict_of_pairs (map (\<lambda>(k, v). (str_int k, v))
               (user_settings (snd (setlocation w user_id place st)))))"
proof -
  have us: "user_settings st1 = user_settings st"
    using assms(4) by (rule get_weather_user_settings)
  have "(user_id, old) \<in> set (user_settings st)"
    using assms(1) by (rule map_of_SomeD)
  then have key: "user_id \<in> fst ` set (user_settings st)" by force
  show ?thesis
    unfolding setlocation_success[OF assms(2,3,4)]
    using key
    by (simp add: save_user_settings_def us update_conv' update_keys Let_def)
qed


lemma customised_eq:
  "customised = \<lparr>user_settings = [(7, station ''Paris'' ''UTC'' ''fahrenheit'' 21)],
                 weather_cache = Map.empty, nasa_cache = None,
                 db = JsonObject [(''7'', station ''Paris'' ''UTC'' ''fahrenheit'' 21)]\<rparr>"
  by (simp add: customised_def state0_def save_user_settings_def dict_of_pairs_def
      str_int_def str_nat.simps digit_char_def char_of_def bit_0)

theorem setlocation_resets_preferences_witness:
  "map_of (user_settings customised) 7 = Some (station ''Paris'' ''UTC'' ''fahrenheit'' 21)
   \<and> strip ''  paris '' = ''paris''
   \<and> get_weather world0 ''paris'' customised
       = (Some paris, customised\<lparr>weather_cache := [''paris'' \<mapsto> (paris, 0)]\<rparr>, [''paris''])
   \<and> fst (setlocation world0 7 ''  paris '' customised) = StationConfigured
   \<and> map_of (user_settings (snd (setlocation world0 7 ''  paris '' customised))) 7
       = Some \<lparr>city = ''Paris'', country = ''FR'', lat = 48.85, lon = 2.35,
               tz = ''Asia/Tokyo'', temp_unit = ''celsius'', report_hour = 8\<rparr>
   \<and> db (snd (setlocation world0 7 ''  paris '' customised))
       = JsonObject [(''7'', \<lparr>city = ''Paris'', country = ''FR'', lat = 48.85, lon = 2.35,
                             tz = ''Asia/Tokyo'', temp_unit = ''celsius'', report_hour = 8\<rparr>)]"
proof -
  have old: "map_of (user_settings customised) 7 = Some (station ''Paris'' ''UTC'' ''fahrenheit'' 21)"
    by (simp add: customised_eq)
  have sp: "strip ''  paris '' = ''paris''"
    by (simp add: strip_def is_space_def)
  have lo: "lower ''paris'' = ''paris''"
    by (simp add: lower_def lower_char_def)
  have gw: "get_weather world0 ''paris'' customised
       = (Some paris, customised\<lparr>weather_cache := [''paris'' \<mapsto> (paris, 0)]\<rparr>, [''paris''])"
    by (simp add: get_weather_def world0_def customised_eq lo)
  have tzc: "get_timezone_from_coords world0 (w_lat paris) (w_lon paris) = ''Asia/Tokyo''"
    by (simp add: get_timezone_from_coords_def world0_def)
  have seven: "str_int 7 = ''7''"
    by (simp add: str_int_def str_nat.simps digit_char_def char_of_def bit_0)
  note r = setlocation_resets_preferences[where st=customised and user_id=7 and place="''  paris ''"
      and w=world0 and r=paris, OF old, unfolded sp, OF _ _ gw]
  have r': "fst (setlocation world0 7 ''  paris '' customised) = StationConfigured
       \<and> map_of (user_settings (snd (setlocation world0 7 ''  paris '' customised))) 7
           = Some \<lparr>city = ''Paris'', country = ''FR'', lat = 48.85, lon = 2.35,
                   tz = ''Asia/Tokyo'', temp_unit = ''celsius'', report_hour = 8\<rparr>
       \<and> map fst (user_settings (snd (setlocation world0 7 ''  paris '' customised))) = [7]"
    using r by (simp add: tzc) (simp add: paris_def customised_eq)
  then obtain e where us: "user_settings (snd (setlocation world0 7 ''  paris '' customised)) = [(7, e)]"
    by (cases "user_settings (snd (setlocation world0 7 ''  paris '' customised))") auto
  with r' have e: "e = \<lparr>city = ''Paris'', country = ''FR'', lat = 48.85, lon = 2.35,
                   tz = ''Asia/Tokyo'', temp_unit = ''celsius'', report_hour = 8\<rparr>"
    by simp
  have "db (snd (setlocation world0 7 ''  paris '' customised))
       = JsonObject [(''7'', e)]"
    using r by (simp add: us dict_of_pairs_def seven)
  with old sp gw r' e show ?thesis by simp
qed


section \<open>The sweep\<close>

lemma get_weather_keeps:
  "user_settings (fst (snd (get_weather w place st))) = user_settings st"
  "db (fst (snd (get_weather w place st))) = db st"
  by (auto simp: get_weather_def Let_def split: option.splits)

lemma get_nasa_image_keeps:
  "user_settings (fst (snd (get_nasa_image w st))) = user_settings st"
  "db (fst (snd (get_nasa_image w st))) = db st"
  by (auto simp: get_nasa_image_def Let_def split: option.splits)

lemma send_daily_report_keeps:
  "user_settings (snd (snd (send_daily_report w user_id entry st))) = user_settings st"
  "db (snd (snd (send_daily_report w user_id entry st))) = db st"
proof -
  obtain r1 st1 q1 where g1: "get_weather w (city entry) st = (r1, st1, q1)"
    by (cases "get_weather w (city entry) st") auto
  obtain r2 st2 q2 where g2: "get_nasa_image w st1 = (r2, st2, q2)"
    by (cases "get_nasa_image w st1") auto
  have 1: "user_settings st1 = user_settings st" "db st1 = db st"
    using get_weather_keeps[of w "city entry" st] g1 by simp_all
  have 2: "user_settings st2 = user_settings st1" "db st2 = db st1"
    using get_nasa_image_keeps[of w st1] g2 by simp_all
  show "user_settings (snd (snd (send_daily_report w user_id entry st))) = user_settings st"
    by (simp add: send_daily_report_def g1 g2 1 2 split: option.splits send_result.splits)
  show "db (snd (snd (send_daily_report w user_id entry st))) = db st"
    by (simp add: send_daily_report_def g1 g2 1 2 split: option.splits send_result.splits)
qed

lemma sweep_users_Cons:
  "sweep_users w ((user_id, entry) # rest) st =
     (case pytz_timezone w (tz entry) of
        None \<Rightarrow> ((user_id, TimezoneError) # fst (sweep_users w rest st),
                 snd (sweep_users w rest st))
      | Some zone \<Rightarrow>
          if local_hour zone (utc w) = report_hour entry \<and> local_minute zone (utc w) < 5
          then ((user_id, Attempted (fst (send_daily_report w user_id entry st))
                            (fst (snd (send_daily_report w user_id entry st))))
                  # fst (sweep_users w rest (snd (snd (send_daily_report w user_id entry st)))),
                snd (sweep_users w rest (snd (snd (send_daily_report w user_id entry st)))))
          else ((user_id, NotDue) # fst (sweep_users w rest st),
                snd (sweep_users w rest st)))"
  by (simp add: case_prod_beta split: option.splits)

lemma sweep_users_keeps:
  "user_settings (snd (sweep_users w us st)) = user_settings st
   \<and> db (snd (sweep_users w us st)) = db st"
proof (induction us arbitrary: st)
  case Nil
  show ?case by simp
next
  case (Cons p us)
  obtain user_id entry where p: "p = (user_id, entry)" by (cases p)
  show ?case
    unfolding p sweep_users_Cons
    using Cons.IH[of st]
      Cons.IH[of "snd (snd (send_daily_report w user_id entry st))"]
      send_daily_report_keeps[of w user_id entry st]
    by (simp split: option.splits)
qed

lemma sweep_users_ids: "map fst (fst (sweep_users w us st)) = map fst us"
proof (induction us arbitrary: st)
  case Nil
  show ?case by simp
next
  case (Cons p us)
  obtain user_id entry where p: "p = (user_id, entry)" by (cases p)
  show ?case
    unfolding p sweep_users_Cons
    using Cons.IH[of st] Cons.IH[of "snd (snd (send_daily_report w user_id entry st))"]
    by (simp split: option.splits)
qed

lemma sweep_users_append:
  "sweep_users w (xs @ ys) st =
     (fst (sweep_users w xs st) @ fst (sweep_users w ys (snd (sweep_users w xs st))),
      snd (sweep_users w ys (snd (sweep_users w xs st))))"
proof (induction xs arbitrary: st)
  case Nil
  show ?case by simp
next
  case (Cons p xs)
  obtain user_id entry where p: "p = (user_id, entry)" by (cases p)
  show ?case
    unfolding p append_Cons sweep_users_Cons
    using Cons.IH[of st] Cons.IH[of "snd (snd (send_daily_report w user_id entry st))"]
    by (simp split: option.splits)
qed

lemma sweep_users_events:
  "i < length us \<Longrightarrow>
   fst (fst (sweep_users w us st) ! i) = fst (us ! i)
   \<and> event_fits w (snd (us ! i)) (snd (fst (sweep_users w us st) ! i))"
proof (induction us arbitrary: st i)
  case Nil
  then show ?case by simp
next
  case (Cons p us)
  obtain user_id entry where p: "p = (user_id, entry)" by (cases p)
  show ?case
  proof (cases i)
    case 0
    show ?thesis
      unfolding p 0 sweep_users_Cons
      by (simp add: event_fits_def report_due_def is_attempt_def split: option.splits)
  next
    case (Suc j)
    with Cons.prems have j: "j < length us" by simp
    show ?thesis
      unfolding p Suc sweep_users_Cons
      using Cons.IH[OF j, of st] Cons.IH[OF j, of "snd (snd (send_daily_report w user_id entry st))"]
      by (simp split: option.splits)
  qed
qed

lemma attempted_users:
  "map fst (filter (\<lambda>(user_id, e). is_attempt e) (fst (sweep_users w us st)))
     = map fst (filter (\<lambda>(user_id, entry). report_due w entry) us)"
proof (induction us arbitrary: st)
  case Nil
  show ?case by simp
next
  case (Cons p us)
  obtain user_id entry where p: "p = (user_id, entry)" by (cases p)
  show ?case
    unfolding p sweep_users_Cons
    using Cons.IH[of st] Cons.IH[of "snd (snd (send_daily_report w user_id entry st))"]
    by (simp add: report_due_def is_attempt_def split: option.splits)
qed


text \<open>
  Claim C6. In every sweep, whatever fails for one user (the zone lookup, the user
  lookup, the weather, the delivery), every configured user is evaluated, in order:
  the sweep notes one event per user, and the event of a user is decided by the
  world and the user's own record alone: a zone error when the zone is unknown,
  otherwise the time-window condition, and a call of \<open>send_daily_report\<close> exactly when
  it holds. After any prefix of the users the loop goes on with the rest. The sweep
  changes neither the settings nor the file, so nothing of a failure persists and the
  next sweep evaluates the same users in the same way.
\<close>

theorem sweep_isolates_failures:
  "map fst (fst (check_and_send_reports w st)) = map fst (user_settings st)
   \<and> (\<forall>i < length (user_settings st).
         event_fits w (snd (user_settings st ! i)) (snd (fst (check_and_send_reports w st) ! i)))
   \<and> attempted w st
       = map fst (filter (\<lambda>(user_id, entry). report_due w entry) (user_settings st))
   \<and> (\<forall>xs ys. user_settings st = xs @ ys \<longrightarrow>
         fst (check_and_send_reports w st)
           = fst (sweep_users w xs st) @ fst (sweep_users w ys (snd (sweep_users w xs st))))
   \<and> user_settings (snd (check_and_send_reports w st)) = user_settings st
   \<and> db (snd (check_and_send_reports w st)) = db st"
proof (intro conjI allI impI)
  show "map fst (fst (check_and_send_reports w st)) = map fst (user_settings st)"
    by (simp only: check_and_send_reports_def sweep_users_ids)
  show "event_fits w (snd (user_settings st ! i)) (snd (fst (check_and_send_reports w st) ! i))"
    if "i < length (user_settings st)" for i
    using sweep_users_events[OF that, of w st] by (simp only: check_and_send_reports_def)
  show "attempted w st
       = map fst (filter (\<lambda>(user_id, entry). report_due w entry) (user_settings st))"
    by (simp only: attempted_def check_and_send_reports_def attempted_users)
  show "fst (check_and_send_reports w st)
           = fst (sweep_users w xs st) @ fst (sweep_users w ys (snd (sweep_users w xs st)))"
    if "user_settings st = xs @ ys" for xs ys
    by (simp only: check_and_send_reports_def that sweep_users_append fst_conv)
  show "user_settings (snd (check_and_send_reports w st)) = user_settings st"
    by (simp only: check_and_send_reports_def sweep_users_keeps)
  show "db (snd (check_and_send_reports w st)) = db st"
    by (simp only: check_and_send_reports_def sweep_users_keeps)
qed

lemma morning_sweep:
  "fst (check_and_send_reports morning five_users)
     = [(1, TimezoneError), (2, Attempted WeatherUnavailable []),
        (3, Attempted ForbiddenError []),
        (4, Attempted Completed [ReportMessage, ImageMessage]), (5, NotDue)]"
  by (simp add: check_and_send_reports_def five_users_def morning_def world0_def state0_def
      station_def zones_def send_daily_report_def get_weather_def get_nasa_image_def
      local_hour_def local_minute_def lower_examples WEATHER_CACHE_TTL_def NASA_CACHE_TTL_def)


lemma five_users_list:
  "user_settings five_users =
     [(1, station ''Paris'' ''Mars/Olympus'' ''celsius'' 8),
      (2, station ''Atlantis'' ''UTC'' ''celsius'' 8),
      (3, station ''Paris'' ''UTC'' ''celsius'' 8),
      (4, station ''Paris'' ''UTC'' ''kelvin'' 8),
      (5, station ''Paris'' ''Asia/Tokyo'' ''celsius'' 8)]"
  by (simp add: five_users_def)

lemma due_examples:
  "\<not> report_due morning (station p ''Mars/Olympus'' u 8)"
  "report_due morning (station p ''UTC'' u 8)"
  "\<not> report_due (morning\<lparr>utc := 115200\<rparr>) (station p ''Mars/Olympus'' u 8)"
  "\<not> report_due morning (station p ''Asia/Tokyo'' u 8)"
  "report_due (morning\<lparr>utc := 115200\<rparr>) (station p ''UTC'' u 8)"
  "\<not> report_due (morning\<lparr>utc := 115200\<rparr>) (station p ''Asia/Tokyo'' u 8)"
  by (simp_all add: report_due_def morning_def world0_def zones_def station_def
      local_hour_def local_minute_def)

theorem sweep_isolates_failures_witness:
  "fst (check_and_send_reports morning five_users)
     = [(1, TimezoneError), (2, Attempted WeatherUnavailable []),
        (3, Attempted ForbiddenError []),
        (4, Attempted Completed [ReportMessage, ImageMessage]), (5, NotDue)]
   \<and> (2 :: nat) < length (user_settings five_users)
   \<and> user_settings five_users ! 2 = (3, station ''Paris'' ''UTC'' ''celsius'' 8)
   \<and> report_due morning (station ''Paris'' ''UTC'' ''celsius'' 8)
   \<and> event_fits morning (station ''Paris'' ''UTC'' ''celsius'' 8) (Attempted ForbiddenError [])
   \<and> pytz_timezone morning ''Mars/Olympus'' = None
   \<and> event_fits morning (station ''Paris'' ''Mars/Olympus'' ''celsius'' 8) TimezoneError
   \<and> attempted morning five_users = [2, 3, 4]
   \<and> user_settings (snd (check_and_send_reports morning five_users)) = user_settings five_users
   \<and> attempted (morning\<lparr>utc := 115200\<rparr>) (snd (check_and_send_reports morning five_users))
       = [2, 3, 4]"
proof -
  note first = sweep_isolates_failures[of morning five_users]
  note second = sweep_isolates_failures[of "morning\<lparr>utc := 115200\<rparr>"
      "snd (check_and_send_reports morning five_users)"]
  have len: "(2 :: nat) < length (user_settings five_users)" "(0 :: nat) < length (user_settings five_users)"
    by (simp_all add: five_users_list)
  have nth: "user_settings five_users ! 2 = (3, station ''Paris'' ''UTC'' ''celsius'' 8)"
    "user_settings five_users ! 0 = (1, station ''Paris'' ''Mars/Olympus'' ''celsius'' 8)"
    by (simp_all add: five_users_list)
  have zone: "pytz_timezone morning ''Mars/Olympus'' = None"
    by (simp add: morning_def world0_def zones_def)
  have fit3: "event_fits morning (station ''Paris'' ''UTC'' ''celsius'' 8) (Attempted ForbiddenError [])"
    using first[THEN conjunct2, THEN conjunct1, rule_format, OF len(1)]
    by (simp add: nth morning_sweep)
  have fit1: "event_fits morning (station ''Paris'' ''Mars/Olympus'' ''celsius'' 8) TimezoneError"
    using first[THEN conjunct2, THEN conjunct1, rule_format, OF len(2)]
    by (simp add: nth morning_sweep)
  have att: "attempted morning five_users = [2, 3, 4]"
    using first by (simp add: five_users_list due_examples)
  have keep: "user_settings (snd (check_and_send_reports morning five_users)) = user_settings five_users"
    using first by simp
  have again: "attempted (morning\<lparr>utc := 115200\<rparr>) (snd (check_and_send_reports morning five_users))
       = [2, 3, 4]"
    using second by (simp add: keep five_users_list due_examples)
  from morning_sweep len nth due_examples(2) fit3 zone fit1 att keep again
  show ?thesis by (intro conjI) (simp_all only:)
qed


section \<open>The report window\<close>

lemma div_bounds:
  fixes a :: int
  assumes "0 < n"
  shows "n * (a div n) \<le> a" "a < n * (a div n) + n"
proof -
  have "a = n * (a div n) + a mod n" by simp
  moreover have "0 \<le> a mod n" "a mod n < n" using assms by simp_all
  ultimately show "n * (a div n) \<le> a" "a < n * (a div n) + n" by linarith+
qed

lemma hour_of_day:
  fixes H d rh :: int
  assumes "0 \<le> rh" "rh \<le> 23"
  shows "(H div 24 = d \<and> H mod 24 = rh) \<longleftrightarrow> H = 24 * d + rh"
proof
  assume "H div 24 = d \<and> H mod 24 = rh"
  moreover have "H = 24 * (H div 24) + H mod 24" by simp
  ultimately show "H = 24 * d + rh" by simp
next
  assume h: "H = 24 * d + rh"
  from h assms have "H div 24 = d" by (intro int_div_pos_eq[of H 24 d rh]) simp_all
  moreover from h assms have "H mod 24 = rh" by (intro int_mod_pos_eq[of H 24 d rh]) simp_all
  ultimately show "H div 24 = d \<and> H mod 24 = rh" by simp
qed

lemma window_interval:
  fixes L d rh :: int
  assumes "0 \<le> rh" "rh \<le> 23"
  shows "(L div 86400 = d \<and> (L div 3600) mod 24 = rh \<and> (L div 60) mod 60 < 5)
     \<longleftrightarrow> (86400 * d + 3600 * rh \<le> L \<and> L < 86400 * d + 3600 * rh + 300)"
proof -
  define M where "M = L div 60"
  define H where "H = M div 60"
  have H: "L div 3600 = H"
    using zdiv_zmult2_eq[of 60 L 60] by (simp add: H_def M_def)
  have D: "L div 86400 = H div 24"
    using zdiv_zmult2_eq[of 24 L 3600] by (simp add: H)
  have L: "60 * M \<le> L" "L < 60 * M + 60"
    unfolding M_def by (rule div_bounds; simp)+
  have M': "60 * H \<le> M" "M < 60 * H + 60"
    unfolding H_def by (rule div_bounds; simp)+
  have "M = 60 * (M div 60) + M mod 60" by simp
  then have Mm: "M mod 60 = M - 60 * H" unfolding H_def by linarith
  have "(L div 86400 = d \<and> (L div 3600) mod 24 = rh \<and> (L div 60) mod 60 < 5)
      \<longleftrightarrow> (H = 24 * d + rh \<and> M - 60 * H < 5)"
    unfolding D H M_def[symmetric] Mm using hour_of_day[OF assms, of H d] by blast
  also have "\<dots> \<longleftrightarrow> (86400 * d + 3600 * rh \<le> L \<and> L < 86400 * d + 3600 * rh + 300)"
  proof
    assume "H = 24 * d + rh \<and> M - 60 * H < 5"
    with L M' show "86400 * d + 3600 * rh \<le> L \<and> L < 86400 * d + 3600 * rh + 300"
      by linarith
  next
    assume a: "86400 * d + 3600 * rh \<le> L \<and> L < 86400 * d + 3600 * rh + 300"
    have "L = 3600 * (24 * d + rh) + (L - (86400 * d + 3600 * rh))" by simp
    moreover have "0 \<le> L - (86400 * d + 3600 * rh)" "L - (86400 * d + 3600 * rh) < 3600"
      using a by linarith+
    ultimately have "L div 3600 = 24 * d + rh" by (rule int_div_pos_eq)
    then have h: "H = 24 * d + rh" by (simp only: H)
    with a L M' show "H = 24 * d + rh \<and> M - 60 * H < 5" by linarith
  qed
  finally show ?thesis .
qed

lemma unique_tick:
  fixes B :: int
  shows "\<exists>!k. B \<le> 300 * k \<and> 300 * k < B + 300"
proof (rule ex1I[of _ "(B + 299) div 300"])
  show "B \<le> 300 * ((B + 299) div 300) \<and> 300 * ((B + 299) div 300) < B + 300"
    using div_bounds[of 300 "B + 299"] by linarith
next
  fix k :: int
  assume "B \<le> 300 * k \<and> 300 * k < B + 300"
  then have "B + 299 = 300 * k + (B + 299 - 300 * k)" "0 \<le> B + 299 - 300 * k"
    "B + 299 - 300 * k < 300" by linarith+
  then have "(B + 299) div 300 = k" by (rule int_div_pos_eq)
  then show "k = (B + 299) div 300" by simp
qed


lemma attempted_iff_due:
  assumes "distinct (map fst (user_settings st))"
    and "(user_id, entry) \<in> set (user_settings st)"
  shows "user_id \<in> set (attempted w st) \<longleftrightarrow> report_due w entry"
proof -
  have att: "attempted w st
      = map fst (filter (\<lambda>(user_id, entry). report_due w entry) (user_settings st))"
    by (simp only: attempted_def check_and_send_reports_def attempted_users)
  show ?thesis
  proof
    assume "user_id \<in> set (attempted w st)"
    then obtain e where e: "(user_id, e) \<in> set (user_settings st)" "report_due w e"
      unfolding att by auto
    from assms(1) e(1) assms(2) have "e = entry" by (rule eq_key_imp_eq_value)
    with e(2) show "report_due w entry" by simp
  next
    assume "report_due w entry"
    with assms(2) show "user_id \<in> set (attempted w st)"
      unfolding att by force
  qed
qed

lemma delivered_attempted: "set (delivered w st) \<subseteq> set (attempted w st)"
  by (auto simp: delivered_def attempted_def is_delivery_def is_attempt_def
      split: sweep_event.splits)

lemma get_weather_available:
  "weather_api w place \<noteq> None \<Longrightarrow> fst (get_weather w place st) \<noteq> None"
  by (auto simp: get_weather_def Let_def split: option.splits)

lemma send_daily_report_delivers:
  assumes "fetch_user w user_id" and "weather_api w (city entry) \<noteq> None"
    and "dm w user_id 0 = Sent"
  shows "ReportMessage \<in> set (fst (snd (send_daily_report w user_id entry st)))"
proof -
  obtain r st1 q where g: "get_weather w (city entry) st = (r, st1, q)"
    by (cases "get_weather w (city entry) st") auto
  with get_weather_available[OF assms(2), of st] obtain data where r: "r = Some data"
    by auto
  obtain r2 st2 q2 where g2: "get_nasa_image w st1 = (r2, st2, q2)"
    by (cases "get_nasa_image w st1") auto
  show ?thesis
    by (simp add: send_daily_report_def assms g r g2 split: option.splits send_result.splits)
qed

lemma sweep_users_delivers:
  assumes "(user_id, entry) \<in> set us" and "report_due w entry"
    and "fetch_user w user_id" and "weather_api w (city entry) \<noteq> None"
    and "dm w user_id 0 = Sent"
  shows "user_id \<in> fst ` {p \<in> set (fst (sweep_users w us st)). is_delivery (snd p)}"
  using assms(1)
proof (induction us arbitrary: st)
  case Nil
  then show ?case by simp
next
  case (Cons p us)
  obtain u e where p: "p = (u, e)" by (cases p)
  show ?case
  proof (cases "(user_id, entry) = (u, e)")
    case True
    then have ue: "u = user_id" "e = entry" by simp_all
    from assms(2) obtain zone where z: "pytz_timezone w (tz entry) = Some zone"
      "local_hour zone (utc w) = report_hour entry" "local_minute zone (utc w) < 5"
      by (auto simp: report_due_def split: option.splits)
    show ?thesis
      unfolding p ue sweep_users_Cons
      using send_daily_report_delivers[OF assms(3,4,5), of st]
      by (force simp: z is_delivery_def image_iff)
  next
    case False
    with Cons.prems p have "(user_id, entry) \<in> set us" by auto
    from Cons.IH[OF this] show ?thesis
      unfolding p sweep_users_Cons
      by (auto split: option.splits)
  qed
qed

lemma delivered_when_available:
  assumes "(user_id, entry) \<in> set (user_settings st)" and "report_due w entry"
    and "fetch_user w user_id" and "weather_api w (city entry) \<noteq> None"
    and "dm w user_id 0 = Sent"
  shows "user_id \<in> set (delivered w st)"
  using sweep_users_delivers[OF assms, of st]
  by (auto simp: delivered_def check_and_send_reports_def)

lemma due_on_day:
  assumes z: "pytz_timezone w (tz entry) = Some zone"
    and o: "offset_on_day zone off d"
    and rh: "0 \<le> report_hour entry" "report_hour entry \<le> 23"
  shows "local_day zone t = d \<and> report_due (w\<lparr>utc := t\<rparr>) entry
     \<longleftrightarrow> 86400 * d + 3600 * report_hour entry \<le> t + off
         \<and> t + off < 86400 * d + 3600 * report_hour entry + 300"
proof
  assume a: "local_day zone t = d \<and> report_due (w\<lparr>utc := t\<rparr>) entry"
  with o have zt: "zone t = off" by (simp add: offset_on_day_def)
  from a z have "(t + off) div 86400 = d \<and> ((t + off) div 3600) mod 24 = report_hour entry
      \<and> ((t + off) div 60) mod 60 < 5"
    by (simp add: report_due_def local_day_def local_hour_def local_minute_def zt)
  then show "86400 * d + 3600 * report_hour entry \<le> t + off
         \<and> t + off < 86400 * d + 3600 * report_hour entry + 300"
    by (simp only: window_interval[OF rh])
next
  assume "86400 * d + 3600 * report_hour entry \<le> t + off
         \<and> t + off < 86400 * d + 3600 * report_hour entry + 300"
  then have b: "(t + off) div 86400 = d \<and> ((t + off) div 3600) mod 24 = report_hour entry
      \<and> ((t + off) div 60) mod 60 < 5"
    by (simp only: window_interval[OF rh])
  with o have zt: "zone t = off" by (simp add: offset_on_day_def)
  from b z show "local_day zone t = d \<and> report_due (w\<lparr>utc := t\<rparr>) entry"
    by (simp add: report_due_def local_day_def local_hour_def local_minute_def zt)
qed

lemma unique_reading:
  fixes B off :: int
  assumes "punctual off lag" and "(B + off) mod 300 = 0"
  shows "\<exists>!k. B \<le> 300 * k + lag k \<and> 300 * k + lag k < B + 300"
proof (cases "\<forall>k. lag k = 0")
  case True
  with unique_tick[of B] show ?thesis by simp
next
  case False
  with assms(1) have off: "off mod 300 = 0" and lag: "\<And>k. 0 \<le> lag k \<and> lag k < 300"
    by (auto simp: punctual_def)
  from off have "300 dvd off" by (simp add: dvd_eq_mod_eq_0)
  moreover from assms(2) have "300 dvd B + off" by (simp add: dvd_eq_mod_eq_0)
  ultimately have "300 dvd B" using dvd_add_left_iff by blast
  then obtain m where B: "B = 300 * m" by (auto simp: dvd_def)
  show ?thesis
  proof (rule ex1I[of _ m])
    show "B \<le> 300 * m + lag m \<and> 300 * m + lag m < B + 300"
      using lag[of m] B by simp
  next
    fix k
    assume "B \<le> 300 * k + lag k \<and> 300 * k + lag k < B + 300"
    with lag[of k] B show "k = m" by linarith
  qed
qed

lemma due_hour_range:
  assumes "report_due w entry"
  shows "0 \<le> report_hour entry \<and> report_hour entry \<le> 23"
proof -
  from assms obtain zone where "local_hour zone (utc w) = report_hour entry"
    by (auto simp: report_due_def split: option.splits)
  moreover have "0 \<le> local_hour zone (utc w)" "local_hour zone (utc w) < 24"
    by (simp_all add: local_hour_def)
  ultimately show ?thesis by linarith
qed

lemma one_due_reading_per_day:
  assumes z: "pytz_timezone w (tz entry) = Some zone"
    and o: "offset_on_day zone off d"
    and rh: "0 \<le> report_hour entry" "report_hour entry \<le> 23"
    and p: "punctual off lag"
  shows "\<exists>!k. local_day zone (300 * k + lag k) = d
            \<and> report_due (w\<lparr>utc := 300 * k + lag k\<rparr>) entry"
proof -
  let ?B = "86400 * d + 3600 * report_hour entry - off"
  have "(?B + off) mod 300 = (300 * (288 * d + 12 * report_hour entry)) mod 300"
    by (rule arg_cong[where f = "\<lambda>x. x mod 300"]) simp
  then have m: "(?B + off) mod 300 = 0" by simp
  have "(local_day zone (300 * k + lag k) = d \<and> report_due (w\<lparr>utc := 300 * k + lag k\<rparr>) entry)
      \<longleftrightarrow> (?B \<le> 300 * k + lag k \<and> 300 * k + lag k < ?B + 300)" for k
    unfolding due_on_day[OF z o rh] by linarith
  with unique_reading[OF p m] show ?thesis by simp
qed

lemma at_most_one_due_reading_per_day:
  assumes z: "pytz_timezone w (tz entry) = Some zone"
    and o: "offset_on_day zone off d"
    and p: "punctual off lag"
    and k: "local_day zone (300 * k + lag k) = d" "report_due (w\<lparr>utc := 300 * k + lag k\<rparr>) entry"
    and k': "local_day zone (300 * k' + lag k') = d" "report_due (w\<lparr>utc := 300 * k' + lag k'\<rparr>) entry"
  shows "k = k'"
proof -
  have rh: "0 \<le> report_hour entry" "report_hour entry \<le> 23"
    using due_hour_range[OF k(2)] by simp_all
  from one_due_reading_per_day[OF z o rh p] k k' show ?thesis by blast
qed

lemma due_time_of_day_on_day:
  assumes z: "pytz_timezone w (tz entry) = Some zone"
    and o: "offset_on_day zone off d"
    and rh: "0 \<le> report_hour entry" "report_hour entry \<le> 23"
    and t: "local_day zone t = d"
  shows "report_due (w\<lparr>utc := t\<rparr>) entry
     \<longleftrightarrow> 3600 * report_hour entry \<le> (t + off) mod 86400
         \<and> (t + off) mod 86400 < 3600 * report_hour entry + 300"
proof -
  from o t have zt: "zone t = off" by (simp add: offset_on_day_def)
  with t have dd: "(t + off) div 86400 = d" by (simp add: local_day_def)
  have "t + off = 86400 * ((t + off) div 86400) + (t + off) mod 86400" by simp
  then have m: "(t + off) mod 86400 = t + off - 86400 * d" unfolding dd by linarith
  have "report_due (w\<lparr>utc := t\<rparr>) entry
      \<longleftrightarrow> local_day zone t = d \<and> report_due (w\<lparr>utc := t\<rparr>) entry"
    using t by simp
  also have "\<dots> \<longleftrightarrow> 86400 * d + 3600 * report_hour entry \<le> t + off
         \<and> t + off < 86400 * d + 3600 * report_hour entry + 300"
    by (rule due_on_day[OF z o rh])
  also have "\<dots> \<longleftrightarrow> 3600 * report_hour entry \<le> (t + off) mod 86400
         \<and> (t + off) mod 86400 < 3600 * report_hour entry + 300"
    unfolding m by linarith
  finally show ?thesis .
qed

text \<open>
  Claim C2, as the code has it. In a sweep, \<open>send_daily_report\<close> is called for a
  configured user exactly when the user's zone is known, the local hour is the report
  hour and the local minute is below 5. A report that is delivered was called for, and
  a call delivers the report when the user is found, the weather of the user's place
  is available and the direct message is accepted. Take a local calendar day that is
  an ordinary day of the user's zone, at one offset from UTC, and the sweeps of the
  ticks \<open>300 * k\<close> (every five minutes on the boundary), each reading the clock for
  the user punctually. For any report hour, at most one sweep of that day calls
  \<open>send_daily_report\<close> for the user; when the report hour is between 0 and 23,
  exactly one does, and when the delivery succeeds exactly one report is delivered.
  The window is the first five minutes of the report hour: a reading at any other
  time of that day, such as a delayed one, calls it for nobody, and nothing makes
  up for a window that no reading fell into. The sweep leaves the settings as they
  are (see \<open>sweep_users_keeps\<close>), so every sweep finds the same record.
\<close>

theorem report_window_once_per_day:
  assumes "distinct (map fst (user_settings st))"
    and "(user_id, entry) \<in> set (user_settings st)"
  shows "(user_id \<in> set (attempted w st) \<longleftrightarrow>
           (\<exists>zone. pytz_timezone w (tz entry) = Some zone
              \<and> local_hour zone (utc w) = report_hour entry \<and> local_minute zone (utc w) < 5))
       \<and> (user_id \<in> set (delivered w st) \<longrightarrow> user_id \<in> set (attempted w st))
       \<and> (user_id \<in> set (attempted w st) \<and> fetch_user w user_id
            \<and> weather_api w (city entry) \<noteq> None \<and> dm w user_id 0 = Sent \<longrightarrow>
           user_id \<in> set (delivered w st))
       \<and> (pytz_timezone w (tz entry) = Some zone \<and> offset_on_day zone off d \<and> punctual off lag \<longrightarrow>
           (\<forall>k k'. local_day zone (300 * k + lag k) = d \<and> local_day zone (300 * k' + lag k') = d
              \<and> user_id \<in> set (attempted (w\<lparr>utc := 300 * k + lag k\<rparr>) st)
              \<and> user_id \<in> set (attempted (w\<lparr>utc := 300 * k' + lag k'\<rparr>) st) \<longrightarrow> k = k'))
       \<and> (pytz_timezone w (tz entry) = Some zone \<and> offset_on_day zone off d \<and> punctual off lag
            \<and> 0 \<le> report_hour entry \<and> report_hour entry \<le> 23 \<longrightarrow>
           (\<exists>!k. local_day zone (300 * k + lag k) = d
              \<and> user_id \<in> set (attempted (w\<lparr>utc := 300 * k + lag k\<rparr>) st)))
       \<and> (pytz_timezone w (tz entry) = Some zone \<and> offset_on_day zone off d \<and> punctual off lag
            \<and> 0 \<le> report_hour entry \<and> report_hour entry \<le> 23
            \<and> fetch_user w user_id \<and> weather_api w (city entry) \<noteq> None \<and> dm w user_id 0 = Sent \<longrightarrow>
           (\<exists>!k. local_day zone (300 * k + lag k) = d
              \<and> user_id \<in> set (delivered (w\<lparr>utc := 300 * k + lag k\<rparr>) st)))
       \<and> (pytz_timezone w (tz entry) = Some zone \<and> offset_on_day zone off d
            \<and> 0 \<le> report_hour entry \<and> report_hour entry \<le> 23 \<longrightarrow>
           (\<forall>t. local_day zone t = d \<longrightarrow>
              (user_id \<in> set (attempted (w\<lparr>utc := t\<rparr>) st) \<longleftrightarrow>
                 3600 * report_hour entry \<le> (t + off) mod 86400
                 \<and> (t + off) mod 86400 < 3600 * report_hour entry + 300)))"
proof -
  note att = attempted_iff_due[OF assms]
  have sub: "user_id \<in> set (attempted w' st)" if "user_id \<in> set (delivered w' st)" for w'
    using that delivered_attempted[of w' st] by blast
  have del: "user_id \<in> set (delivered w' st)"
    if "user_id \<in> set (attempted w' st)" "fetch_user w' user_id"
      "weather_api w' (city entry) \<noteq> None" "dm w' user_id 0 = Sent" for w'
    using delivered_when_available[OF assms(2) _ that(2,3,4)] that(1)
    by (simp only: attempted_iff_due[OF assms])
  show ?thesis
  proof (intro conjI impI allI; (elim conjE)?)
    show "user_id \<in> set (attempted w st) \<longleftrightarrow>
           (\<exists>zone. pytz_timezone w (tz entry) = Some zone
              \<and> local_hour zone (utc w) = report_hour entry \<and> local_minute zone (utc w) < 5)"
      unfolding att by (simp add: report_due_def split: option.splits)
  next
    assume "user_id \<in> set (delivered w st)"
    then show "user_id \<in> set (attempted w st)" by (rule sub)
  next
    assume "user_id \<in> set (attempted w st)" "fetch_user w user_id"
      "weather_api w (city entry) \<noteq> None" "dm w user_id 0 = Sent"
    then show "user_id \<in> set (delivered w st)" by (rule del)
  next
    fix k k'
    assume "pytz_timezone w (tz entry) = Some zone" "offset_on_day zone off d" "punctual off lag"
      "local_day zone (300 * k + lag k) = d" "local_day zone (300 * k' + lag k') = d"
      "user_id \<in> set (attempted (w\<lparr>utc := 300 * k + lag k\<rparr>) st)"
      "user_id \<in> set (attempted (w\<lparr>utc := 300 * k' + lag k'\<rparr>) st)"
    then show "k = k'"
      unfolding att by (intro at_most_one_due_reading_per_day[of w entry zone off d lag k k'])
  next
    assume "pytz_timezone w (tz entry) = Some zone" "offset_on_day zone off d" "punctual off lag"
      "0 \<le> report_hour entry" "report_hour entry \<le> 23"
    then show "\<exists>!k. local_day zone (300 * k + lag k) = d
              \<and> user_id \<in> set (attempted (w\<lparr>utc := 300 * k + lag k\<rparr>) st)"
      unfolding att by (intro one_due_reading_per_day)
  next
    assume a: "pytz_timezone w (tz entry) = Some zone" "offset_on_day zone off d" "punctual off lag"
      "0 \<le> report_hour entry" "report_hour entry \<le> 23"
      and b: "fetch_user w user_id" "weather_api w (city entry) \<noteq> None" "dm w user_id 0 = Sent"
    have "user_id \<in> set (delivered (w\<lparr>utc := t\<rparr>) st)
        \<longleftrightarrow> user_id \<in> set (attempted (w\<lparr>utc := t\<rparr>) st)" for t
      using sub[of "w\<lparr>utc := t\<rparr>"] del[of "w\<lparr>utc := t\<rparr>"] b by auto
    moreover have "\<exists>!k. local_day zone (300 * k + lag k) = d
              \<and> user_id \<in> set (attempted (w\<lparr>utc := 300 * k + lag k\<rparr>) st)"
      unfolding att using a by (intro one_due_reading_per_day)
    ultimately show "\<exists>!k. local_day zone (300 * k + lag k) = d
              \<and> user_id \<in> set (delivered (w\<lparr>utc := 300 * k + lag k\<rparr>) st)"
      by simp
  next
    fix t
    assume "pytz_timezone w (tz entry) = Some zone" "offset_on_day zone off d"
      "0 \<le> report_hour entry" "report_hour entry \<le> 23" "local_day zone t = d"
    then show "user_id \<in> set (attempted (w\<lparr>utc := t\<rparr>) st) \<longleftrightarrow>
              3600 * report_hour entry \<le> (t + off) mod 86400
              \<and> (t + off) mod 86400 < 3600 * report_hour entry + 300"
      unfolding att by (rule due_time_of_day_on_day)
  qed
qed

lemma sweep_defs:
  "check_and_send_reports w st = sweep_users w (user_settings st) st"
  "attempted w st = map fst (filter (\<lambda>(user_id, e). is_attempt e) (fst (check_and_send_reports w st)))"
  by (simp_all add: check_and_send_reports_def attempted_def)

text \<open>
  Claim C2 as stated fails where the offset of the zone changes. On 1 November 2026
  the clocks of New York go back from two to one o'clock; the sweeps at 05:00 and at
  06:00 UTC both fall on five-minute boundaries and on the same local calendar day,
  both read the local time 01:00, and both send the report to a user whose report
  hour is 1.
\<close>

theorem report_twice_on_dst_day:
  "pytz_timezone world0 ''America/New_York'' = Some new_york
   \<and> (1793509200 :: int) = 300 * 5978364 \<and> (1793512800 :: int) = 300 * 5978376
   \<and> local_day new_york 1793509200 = local_day new_york 1793512800
   \<and> local_hour new_york 1793509200 = 1 \<and> local_minute new_york 1793509200 = 0
   \<and> local_hour new_york 1793512800 = 1 \<and> local_minute new_york 1793512800 = 0
   \<and> fst (check_and_send_reports (world0\<lparr>utc := 1793509200\<rparr>) new_yorker)
       = [(9, Attempted Completed [ReportMessage, ImageMessage])]
   \<and> fst (check_and_send_reports (world0\<lparr>utc := 1793512800\<rparr>) new_yorker)
       = [(9, Attempted Completed [ReportMessage, ImageMessage])]
   \<and> attempted (world0\<lparr>utc := 1793509200\<rparr>) new_yorker = [9]
   \<and> attempted (world0\<lparr>utc := 1793512800\<rparr>) new_yorker = [9]"
  by (simp add: sweep_defs new_yorker_def world0_def state0_def
      station_def zones_def new_york_def send_daily_report_def get_weather_def get_nasa_image_def
      local_hour_def local_minute_def local_day_def lower_examples is_attempt_def
      WEATHER_CACHE_TTL_def NASA_CACHE_TTL_def)


lemma new_york_standard_time: "offset_on_day new_york (- 18000) 20759"
proof -
  have "new_york t = - 18000"
    if "local_day new_york t = 20759 \<or> (t + - 18000) div 86400 = 20759" for t
  proof (rule ccontr)
    assume "new_york t \<noteq> - 18000"
    then have early: "t < 1793512800" and ny: "new_york t = - 14400"
      by (simp_all add: new_york_def split: if_splits)
    from that show False
    proof
      assume "local_day new_york t = 20759"
      then have "(t - 14400) div 86400 = 20759" by (simp add: local_day_def ny)
      with div_bounds(1)[of 86400 "t - 14400"] early show False by simp
    next
      assume "(t + - 18000) div 86400 = 20759"
      with div_bounds(1)[of 86400 "t + - 18000"] early show False by simp
    qed
  qed
  then show ?thesis by (simp add: offset_on_day_def)
qed

lemma delivery_examples:
  "attempted morning five_users = [2, 3, 4]"
  "delivered morning five_users = [4]"
  "delivered (world0\<lparr>utc := 300 * 276\<rparr>) commuter = [5]"
  "delivered (world0\<lparr>utc := 300 * 5978664 + 7\<rparr>) new_yorker = [9]"
proof -
  show "attempted morning five_users = [2, 3, 4]" "delivered morning five_users = [4]"
    by (simp_all add: attempted_def delivered_def morning_sweep is_attempt_def is_delivery_def)
  show "delivered (world0\<lparr>utc := 300 * 276\<rparr>) commuter = [5]"
    by (simp add: delivered_def sweep_defs commuter_def world0_def state0_def
      station_def zones_def send_daily_report_def get_weather_def get_nasa_image_def
      local_hour_def local_minute_def lower_examples is_delivery_def
      WEATHER_CACHE_TTL_def NASA_CACHE_TTL_def)
  show "delivered (world0\<lparr>utc := 300 * 5978664 + 7\<rparr>) new_yorker = [9]"
    by (simp add: delivered_def sweep_defs new_yorker_def world0_def state0_def
      station_def zones_def new_york_def send_daily_report_def get_weather_def get_nasa_image_def
      local_hour_def local_minute_def lower_examples is_delivery_def
      WEATHER_CACHE_TTL_def NASA_CACHE_TTL_def)
qed

theorem report_window_once_per_day_witness:
  "distinct (map fst (user_settings commuter))
   \<and> (5, station ''Paris'' ''Asia/Tokyo'' ''celsius'' 8) \<in> set (user_settings commuter)
   \<and> pytz_timezone world0 ''Asia/Tokyo'' = Some (\<lambda>t. 32400)
   \<and> offset_on_day (\<lambda>t. 32400) 32400 1
   \<and> punctual 32400 (\<lambda>k. 0)
   \<and> local_day (\<lambda>t. 32400) (300 * 276) = 1
   \<and> 5 \<in> set (delivered (world0\<lparr>utc := 300 * 276\<rparr>) commuter)
   \<and> 5 \<in> set (attempted (world0\<lparr>utc := 300 * 276\<rparr>) commuter)
   \<and> (\<exists>!k. local_day (\<lambda>t. 32400) (300 * k + 0) = 1
          \<and> 5 \<in> set (attempted (world0\<lparr>utc := 300 * k + 0\<rparr>) commuter))
   \<and> (\<exists>!k. local_day (\<lambda>t. 32400) (300 * k + 0) = 1
          \<and> 5 \<in> set (delivered (world0\<lparr>utc := 300 * k + 0\<rparr>) commuter))
   \<and> local_day (\<lambda>t. 32400) (300 * 277 + 3) = 1
   \<and> 5 \<notin> set (attempted (world0\<lparr>utc := 300 * 277 + 3\<rparr>) commuter)
   \<and> 5 \<notin> set (delivered (world0\<lparr>utc := 300 * 277 + 3\<rparr>) commuter)
   \<and> distinct (map fst (user_settings new_yorker))
   \<and> (9, station ''Paris'' ''America/New_York'' ''celsius'' 1) \<in> set (user_settings new_yorker)
   \<and> pytz_timezone world0 ''America/New_York'' = Some new_york
   \<and> offset_on_day new_york (- 18000) 20759
   \<and> punctual (- 18000) (\<lambda>k. 7)
   \<and> local_day new_york (300 * 5978664 + 7) = 20759
   \<and> 9 \<in> set (delivered (world0\<lparr>utc := 300 * 5978664 + 7\<rparr>) new_yorker)
   \<and> (\<exists>!k. local_day new_york (300 * k + 7) = 20759
          \<and> 9 \<in> set (delivered (world0\<lparr>utc := 300 * k + 7\<rparr>) new_yorker))
   \<and> local_day new_york (300 * 5978665 + 7) = 20759
   \<and> 9 \<notin> set (attempted (world0\<lparr>utc := 300 * 5978665 + 7\<rparr>) new_yorker)
   \<and> attempted morning five_users = [2, 3, 4]
   \<and> delivered morning five_users = [4]"
proof -
  let ?tokyo = "station ''Paris'' ''Asia/Tokyo'' ''celsius'' 8"
  let ?ny = "station ''Paris'' ''America/New_York'' ''celsius'' 1"
  have d: "distinct (map fst (user_settings commuter))"
    by (simp add: commuter_def)
  have m: "(5, ?tokyo) \<in> set (user_settings commuter)"
    by (simp add: commuter_def)
  have z: "pytz_timezone world0 (tz ?tokyo) = Some (\<lambda>t. 32400)"
    by (simp add: world0_def zones_def station_def)
  have zn: "pytz_timezone world0 ''Asia/Tokyo'' = Some (\<lambda>t. 32400)"
    by (simp add: world0_def zones_def)
  have o: "offset_on_day (\<lambda>t. 32400) 32400 1"
    by (simp add: offset_on_day_def)
  have p: "punctual 32400 (\<lambda>k. 0)"
    by (simp add: punctual_def)
  have h: "0 \<le> report_hour ?tokyo" "report_hour ?tokyo \<le> 23" "report_hour ?tokyo = 8"
    by (simp_all add: station_def)
  have ok: "fetch_user world0 5" "weather_api world0 (city ?tokyo) \<noteq> None" "dm world0 5 0 = Sent"
    by (simp_all add: world0_def station_def lower_examples)
  note r = report_window_once_per_day[OF d m, of _ "\<lambda>t. 32400" 32400 1 "\<lambda>k. 0"]
  have day: "local_day (\<lambda>t. 32400) (300 * 276) = 1" "local_day (\<lambda>t. 32400) (300 * 277 + 3) = 1"
    by (simp_all add: local_day_def)
  have del: "5 \<in> set (delivered (world0\<lparr>utc := 300 * 276\<rparr>) commuter)"
    by (simp only: delivery_examples) simp
  have att: "5 \<in> set (attempted (world0\<lparr>utc := 300 * 276\<rparr>) commuter)"
    using r[of "world0\<lparr>utc := 300 * 276\<rparr>", THEN conjunct2, THEN conjunct1] del by (rule mp)
  have one: "\<exists>!k. local_day (\<lambda>t. 32400) (300 * k + 0) = 1
          \<and> 5 \<in> set (attempted (world0\<lparr>utc := 300 * k + 0\<rparr>) commuter)"
    using r[of world0, THEN conjunct2, THEN conjunct2, THEN conjunct2, THEN conjunct2, THEN conjunct1]
      z o p h(1,2) by (simp only: simp_thms)
  have one': "\<exists>!k. local_day (\<lambda>t. 32400) (300 * k + 0) = 1
          \<and> 5 \<in> set (delivered (world0\<lparr>utc := 300 * k + 0\<rparr>) commuter)"
    using r[of world0, THEN conjunct2, THEN conjunct2, THEN conjunct2, THEN conjunct2, THEN conjunct2,
        THEN conjunct1]
      z o p h(1,2) ok by (simp only: simp_thms)
  have tod: "local_day (\<lambda>t. 32400) t = 1 \<Longrightarrow>
      5 \<in> set (attempted (world0\<lparr>utc := t\<rparr>) commuter) \<longleftrightarrow>
      28800 \<le> (t + 32400) mod 86400 \<and> (t + 32400) mod 86400 < 29100" for t
    using r[of world0, THEN conjunct2, THEN conjunct2, THEN conjunct2, THEN conjunct2, THEN conjunct2,
        THEN conjunct2] z o h by simp
  have late: "5 \<notin> set (attempted (world0\<lparr>utc := 300 * 277 + 3\<rparr>) commuter)"
    using tod[OF day(2)] by simp
  have late': "5 \<notin> set (delivered (world0\<lparr>utc := 300 * 277 + 3\<rparr>) commuter)"
    using r[of "world0\<lparr>utc := 300 * 277 + 3\<rparr>", THEN conjunct2, THEN conjunct1] late
    by (simp only: simp_thms)
  have d2: "distinct (map fst (user_settings new_yorker))"
    by (simp add: new_yorker_def)
  have m2: "(9, ?ny) \<in> set (user_settings new_yorker)"
    by (simp add: new_yorker_def)
  have z2: "pytz_timezone world0 (tz ?ny) = Some new_york"
    by (simp add: world0_def zones_def station_def)
  have zn2: "pytz_timezone world0 ''America/New_York'' = Some new_york"
    by (simp add: world0_def zones_def)
  have p2: "punctual (- 18000) (\<lambda>k. 7)"
    by (simp add: punctual_def)
  have h2: "0 \<le> report_hour ?ny" "report_hour ?ny \<le> 23"
    by (simp_all add: station_def)
  have ok2: "fetch_user world0 9" "weather_api world0 (city ?ny) \<noteq> None" "dm world0 9 0 = Sent"
    by (simp_all add: world0_def station_def lower_examples)
  note r2 = report_window_once_per_day[OF d2 m2, of world0 new_york "- 18000" 20759 "\<lambda>k. 7"]
  have day2: "local_day new_york (300 * 5978664 + 7) = 20759"
    by (simp add: local_day_def new_york_def)
  have del2: "9 \<in> set (delivered (world0\<lparr>utc := 300 * 5978664 + 7\<rparr>) new_yorker)"
    by (simp only: delivery_examples) simp
  have att2: "9 \<in> set (attempted (world0\<lparr>utc := 300 * 5978664 + 7\<rparr>) new_yorker)"
    by (rule subsetD[OF delivered_attempted del2])
  have one2: "\<exists>!k. local_day new_york (300 * k + 7) = 20759
          \<and> 9 \<in> set (delivered (world0\<lparr>utc := 300 * k + 7\<rparr>) new_yorker)"
    using r2[THEN conjunct2, THEN conjunct2, THEN conjunct2, THEN conjunct2, THEN conjunct2,
        THEN conjunct1] z2 new_york_standard_time p2 h2 ok2 by (simp only: simp_thms)
  have day3: "local_day new_york (300 * 5978665 + 7) = 20759"
    by (simp add: local_day_def new_york_def)
  have most2: "9 \<notin> set (attempted (world0\<lparr>utc := 300 * 5978665 + 7\<rparr>) new_yorker)"
  proof
    assume "9 \<in> set (attempted (world0\<lparr>utc := 300 * 5978665 + 7\<rparr>) new_yorker)"
    with r2[THEN conjunct2, THEN conjunct2, THEN conjunct2, THEN conjunct1, rule_format,
        of 5978665 5978664] z2 new_york_standard_time p2 day2 day3 att2
    have "(5978665 :: int) = 5978664" by (simp only: simp_thms)
    then show False by simp
  qed
  show ?thesis
    by (intro conjI d m zn o p day(1) del att one one' day(2) late late' d2 m2 zn2
        new_york_standard_time p2 day2 del2 one2 day3 most2 delivery_examples(1,2))
qed

end
